theory Spec2Isabelle
  imports Complex_Main "HOL-Library.Sublist"
begin

section \<open>Conventions of the embedding\<close>

text \<open>
  The detector is Python over NumPy arrays of floating-point numbers. An array is a
  list, a Python \<open>float\<close> is a \<^typ>\<open>real\<close>: the arithmetic of the model is exact, the
  rounding of IEEE arithmetic is not modelled. Where NumPy answers \<open>nan\<close> or an infinity
  instead of raising (the mean of an empty array, a division of zero by zero) the model
  answers \<^term>\<open>None\<close>: a value \<^term>\<open>Some x\<close> is a finite float. Where Python raises, the
  model answers \<^term>\<open>Inl\<close> of the exception. A quotient whose denominator the code
  keeps positive (a sum, a mean or a maximum that is not negative, plus \<open>1e-10\<close>) is the
  quotient of the reals.
\<close>

subsection \<open>Python exceptions and dictionaries\<close>

text \<open>An exception is its class name and its message (\<open>str(e)\<close>).\<close>

datatype exn = Exn (exc_type: string) (exc_msg: string)

text \<open>A statement that may raise, followed by the rest of the block.\<close>

definition try_bind :: "exn + 'a \<Rightarrow> ('a \<Rightarrow> exn + 'b) \<Rightarrow> exn + 'b" where
  "try_bind m f = (case m of Inl e \<Rightarrow> Inl e | Inr v \<Rightarrow> f v)"

text \<open>\<open>d.get(k, default)\<close> on a dictionary held as an association list.\<close>

definition dict_get :: "('k \<times> 'v) list \<Rightarrow> 'k \<Rightarrow> 'v \<Rightarrow> 'v" where
  "dict_get d k dflt = (case map_of d k of None \<Rightarrow> dflt | Some v \<Rightarrow> v)"

text \<open>
  \<open>round(x, ndigits)\<close>: the nearest multiple of \<open>10 ^ -ndigits\<close>, a tie going to the
  even neighbour.
\<close>

definition py_round :: "real \<Rightarrow> nat \<Rightarrow> real" where
  "py_round x ndigits =
     (let s = 10 ^ ndigits;
          y = x * s;
          f = \<lfloor>y\<rfloor>;
          r = y - of_int f
      in (if r < 1 / 2 then of_int f
          else if 1 / 2 < r then of_int (f + 1)
          else if even f then of_int f
          else of_int (f + 1)) / s)"

section \<open>\<open>voice_detector.py\<close>: the scorer\<close>

subsection \<open>Feature vector and configuration\<close>

text \<open>
  The scorer, the explanation and the indicator lists read the dictionary of features by
  key and compare the values with thresholds. \<open>_extract_features\<close> fills it with the
  same thirteen keys on every call, so the model hands it to them as a record with one
  field per key, each a number.
\<close>

record feature_vector =
  spectral_flatness :: real
  spectral_centroid :: real
  spectral_rolloff :: real
  harmonic_ratio :: real
  zero_crossing_rate :: real
  zcr_std :: real
  jitter :: real
  shimmer :: real
  mfcc_variance :: real
  energy_entropy :: real
  dynamic_range :: real
  signal_kurtosis :: real
  signal_skewness :: real

text \<open>\<open>self.thresholds\<close>, one constant per key.\<close>

definition spectral_flatness_threshold :: real where
  "spectral_flatness_threshold = 0.15"

definition harmonic_ratio_threshold :: real where
  "harmonic_ratio_threshold = 0.75"

definition zero_crossing_rate_std :: real where
  "zero_crossing_rate_std = 0.02"

definition jitter_threshold :: real where
  "jitter_threshold = 0.005"

definition shimmer_threshold :: real where
  "shimmer_threshold = 0.05"

definition mel_cepstral_distortion :: real where
  "mel_cepstral_distortion = 2.5"

lemmas thresholds_defs =
  spectral_flatness_threshold_def harmonic_ratio_threshold_def zero_crossing_rate_std_def
  jitter_threshold_def shimmer_threshold_def mel_cepstral_distortion_def

text \<open>\<open>self.language_models\<close>: a dictionary of dictionaries.\<close>

definition language_models :: "(string \<times> (string \<times> real) list) list" where
  "language_models =
     [(''tamil'', [(''phoneme_weight'', 1.1)]),
      (''english'', [(''phoneme_weight'', 1.0)]),
      (''hindi'', [(''phoneme_weight'', 1.05)]),
      (''malayalam'', [(''phoneme_weight'', 1.1)]),
      (''telugu'', [(''phoneme_weight'', 1.08)])]"

subsection \<open>\<open>_calculate_ai_probability\<close>\<close>

text \<open>
  The two accumulators are rebound after each rule, in the order of the source.
\<close>

definition calculate_ai_probability :: "feature_vector \<Rightarrow> string \<Rightarrow> real" where
  "calculate_ai_probability features language =
     (let ai_score = 0;
          total_weight = 0;
          lang_weight = dict_get (dict_get language_models language []) ''phoneme_weight'' 1.0;
          ai_score = (if spectral_flatness features > spectral_flatness_threshold
                      then ai_score + 2.0 else ai_score);
          total_weight = total_weight + 2.0;
          ai_score = (if harmonic_ratio features > harmonic_ratio_threshold
                      then ai_score + 1.5 else ai_score);
          total_weight = total_weight + 1.5;
          ai_score = (if zcr_std features < zero_crossing_rate_std
                      then ai_score + 1.8 * lang_weight else ai_score);
          total_weight = total_weight + 1.8 * lang_weight;
          ai_score = (if jitter features < jitter_threshold
                      then ai_score + 2.2 else ai_score);
          total_weight = total_weight + 2.2;
          ai_score = (if shimmer features < shimmer_threshold
                      then ai_score + 2.0 else ai_score);
          total_weight = total_weight + 2.0;
          ai_score = (if mfcc_variance features < mel_cepstral_distortion
                      then ai_score + 1.5 else ai_score);
          total_weight = total_weight + 1.5;
          ai_score = (if energy_entropy features < 3.5
                      then ai_score + 1.0 else ai_score);
          total_weight = total_weight + 1.0
      in if total_weight > 0 then ai_score / total_weight else 0.5)"

subsection \<open>\<open>_generate_explanation\<close>\<close>

text \<open>\<open>sep.join(parts)\<close>.\<close>

fun str_join :: "string \<Rightarrow> string list \<Rightarrow> string" where
  "str_join sep [] = []"
| "str_join sep [p] = p"
| "str_join sep (p # q # ps) = p @ sep @ str_join sep (q # ps)"

text \<open>
  The text of a float under the format \<open>.1%\<close> is Python's own; the model takes it as
  the parameter \<open>fmt_percent\<close>.
\<close>

definition generate_explanation ::
    "(real \<Rightarrow> string) \<Rightarrow> feature_vector \<Rightarrow> real \<Rightarrow> string \<Rightarrow> string" where
  "generate_explanation fmt_percent features ai_probability language =
     (let classification = (if ai_probability > 0.5 then ''AI-generated'' else ''human-generated'');
          confidence = (if ai_probability > 0.5 then ai_probability else 1 - ai_probability);
          reasons = [];
          reasons = (if spectral_flatness features > spectral_flatness_threshold
                     then reasons @ [''uniform spectral distribution''] else reasons);
          reasons = (if jitter features < jitter_threshold
                     then reasons @ [''minimal pitch variation''] else reasons);
          reasons = (if shimmer features < shimmer_threshold
                     then reasons @ [''consistent amplitude''] else reasons);
          reasons = (if zcr_std features < zero_crossing_rate_std
                     then reasons @ [''stable zero-crossing rate''] else reasons);
          reasons = (if harmonic_ratio features > harmonic_ratio_threshold
                     then reasons @ [''high harmonic content''] else reasons);
          reasons = (if reasons = []
                     then [''natural prosodic variation'', ''organic spectral characteristics'']
                     else reasons);
          explanation =
            ''The audio sample is classified as '' @ classification @ '' with ''
              @ fmt_percent confidence @ '' confidence. ''
              @ ''Analysis of the '' @ language @ '' speech revealed: ''
              @ str_join '', '' (take 3 reasons) @ ''. ''
      in if ai_probability > 0.5
         then explanation @ ''These patterns are typical of synthetic voice generation systems.''
         else explanation
           @ ''These characteristics are consistent with natural human speech production.'')"

subsection \<open>\<open>_get_ai_indicators\<close> and \<open>_get_human_indicators\<close>\<close>

definition get_ai_indicators :: "feature_vector \<Rightarrow> string list" where
  "get_ai_indicators features =
     (let indicators = [];
          indicators = (if spectral_flatness features > spectral_flatness_threshold
                        then indicators @ [''High spectral uniformity''] else indicators);
          indicators = (if jitter features < jitter_threshold
                        then indicators @ [''Low pitch jitter''] else indicators);
          indicators = (if shimmer features < shimmer_threshold
                        then indicators @ [''Low amplitude shimmer''] else indicators);
          indicators = (if zcr_std features < zero_crossing_rate_std
                        then indicators @ [''Consistent zero-crossing rate''] else indicators);
          indicators = (if harmonic_ratio features > harmonic_ratio_threshold
                        then indicators @ [''Strong harmonic structure''] else indicators)
      in indicators)"

definition get_human_indicators :: "feature_vector \<Rightarrow> string list" where
  "get_human_indicators features =
     (let indicators = [];
          indicators = (if jitter features > jitter_threshold
                        then indicators @ [''Natural pitch variation''] else indicators);
          indicators = (if shimmer features > shimmer_threshold
                        then indicators @ [''Natural amplitude variation''] else indicators);
          indicators = (if zcr_std features > zero_crossing_rate_std
                        then indicators @ [''Variable articulation''] else indicators);
          indicators = (if energy_entropy features > 3.5
                        then indicators @ [''Dynamic energy distribution''] else indicators)
      in indicators)"

subsection \<open>\<open>detect\<close>\<close>

record detailed_analysis =
  features :: feature_vector
  ai_indicators :: "string list"
  human_indicators :: "string list"

record detection_result =
  classification :: string
  confidence_score :: real
  explanation :: string
  detailed :: "detailed_analysis option"

text \<open>\<open>{k: round(float(v), 4) for k, v in features.items()}\<close>.\<close>

definition round_features :: "feature_vector \<Rightarrow> feature_vector" where
  "round_features fv =
     \<lparr>spectral_flatness = py_round (spectral_flatness fv) 4,
      spectral_centroid = py_round (spectral_centroid fv) 4,
      spectral_rolloff = py_round (spectral_rolloff fv) 4,
      harmonic_ratio = py_round (harmonic_ratio fv) 4,
      zero_crossing_rate = py_round (zero_crossing_rate fv) 4,
      zcr_std = py_round (zcr_std fv) 4,
      jitter = py_round (jitter fv) 4,
      shimmer = py_round (shimmer fv) 4,
      mfcc_variance = py_round (mfcc_variance fv) 4,
      energy_entropy = py_round (energy_entropy fv) 4,
      dynamic_range = py_round (dynamic_range fv) 4,
      signal_kurtosis = py_round (signal_kurtosis fv) 4,
      signal_skewness = py_round (signal_skewness fv) 4\<rparr>"

text \<open>
  \<open>detect\<close> obtains the feature vector from \<open>_extract_features\<close> and scores it. The
  scorer compares numbers, so \<open>detect\<close> is modelled over any extractor that returns
  thirteen numbers, the parameter \<open>extractor\<close>, and runs the rest of the method on what
  it returns. The extractor of the source, whose values may be \<open>nan\<close>, is modelled on
  its own below.
\<close>

definition detect ::
    "(real list \<Rightarrow> nat \<Rightarrow> string \<Rightarrow> feature_vector) \<Rightarrow> (real \<Rightarrow> string)
      \<Rightarrow> real list \<Rightarrow> nat \<Rightarrow> string \<Rightarrow> bool \<Rightarrow> detection_result" where
  "detect extractor fmt_percent audio_data sample_rate language include_features =
     (let fv = extractor audio_data sample_rate language;
          ai_probability = calculate_ai_probability fv language;
          cls = (if ai_probability > 0.5 then ''ai_generated'' else ''human_generated'');
          conf = (if cls = ''ai_generated'' then ai_probability else 1 - ai_probability);
          expl = generate_explanation fmt_percent fv ai_probability language
      in \<lparr>classification = cls,
          confidence_score = py_round conf 4,
          explanation = expl,
          detailed =
            (if include_features
             then Some \<lparr>features = round_features fv,
                        ai_indicators = get_ai_indicators fv,
                        human_indicators = get_human_indicators fv\<rparr>
             else None)\<rparr>)"

section \<open>\<open>voice_detector.py\<close>: the feature extractor\<close>

subsection \<open>NumPy helpers\<close>

text \<open>\<open>np.mean\<close> and \<open>np.std\<close>: \<open>nan\<close> on an empty array.\<close>

definition np_mean :: "real list \<Rightarrow> real option" where
  "np_mean ys = (if ys = [] then None else Some (sum_list ys / real (length ys)))"

definition np_std :: "real list \<Rightarrow> real option" where
  "np_std ys =
     (case np_mean ys of
        None \<Rightarrow> None
      | Some m \<Rightarrow> map_option sqrt (np_mean (map (\<lambda>y. (y - m)\<^sup>2) ys)))"

text \<open>\<open>np.var\<close>: the mean squared deviation from the mean.\<close>

definition np_var :: "real list \<Rightarrow> real option" where
  "np_var ys =
     (case np_mean ys of
        None \<Rightarrow> None
      | Some m \<Rightarrow> np_mean (map (\<lambda>y. (y - m)\<^sup>2) ys))"

text \<open>\<open>np.diff\<close>: the differences of neighbours.\<close>

fun np_diff :: "real list \<Rightarrow> real list" where
  "np_diff (x # y # zs) = (y - x) # np_diff (y # zs)"
| "np_diff zs = []"

text \<open>\<open>np.cumsum\<close>: the running sums.\<close>

fun cumsum_from :: "real \<Rightarrow> real list \<Rightarrow> real list" where
  "cumsum_from acc [] = []"
| "cumsum_from acc (x # xs) = (acc + x) # cumsum_from (acc + x) xs"

definition np_cumsum :: "real list \<Rightarrow> real list" where
  "np_cumsum xs = cumsum_from 0 xs"

text \<open>\<open>np.max\<close> raises on an empty array.\<close>

definition np_max :: "real list \<Rightarrow> exn + real" where
  "np_max xs =
     (case xs of
        [] \<Rightarrow> Inl (Exn ''ValueError''
                ''zero-size array to reduction operation maximum which has no identity'')
      | x # rest \<Rightarrow> Inr (foldl max x rest))"

text \<open>
  \<open>np.fft.fftfreq(n, d)\<close>: the frequencies of the \<open>n\<close> bins, the non-negative ones first,
  in units of \<open>1 / (n d)\<close>. It is called after \<open>fft\<close> has accepted the signal, so
  \<open>n\<close> is not zero.
\<close>

definition np_fftfreq :: "nat \<Rightarrow> real \<Rightarrow> real list" where
  "np_fftfreq n d =
     map (\<lambda>k. (if k < (n + 1) div 2 then real k else real k - real n) / (real n * d)) [0..<n]"

text \<open>
  \<open>np.correlate(a, v, mode='full')\<close>: entry \<open>j\<close> is the sum of \<open>a[n + k] * v[n]\<close> at lag
  \<open>k = j - (len(v) - 1)\<close>, over the \<open>n\<close> for which both indices exist. It raises on an
  empty argument.
\<close>

definition np_correlate_full :: "real list \<Rightarrow> real list \<Rightarrow> exn + real list" where
  "np_correlate_full a v =
     (if a = [] then Inl (Exn ''ValueError'' ''first array argument cannot be empty'')
      else if v = [] then Inl (Exn ''ValueError'' ''second array argument cannot be empty'')
      else Inr (map (\<lambda>j. sum_list
                        (map (\<lambda>n. a ! (n + j - (length v - 1)) * v ! n)
                           (filter (\<lambda>n. length v - 1 \<le> n + j
                                       \<and> n + j - (length v - 1) < length a)
                              [0..<length v])))
                  [0..<length a + length v - 1]))"

text \<open>
  \<open>range(start, stop, step)\<close> for a positive step, as the loop that counts up.
\<close>

function py_range :: "int \<Rightarrow> int \<Rightarrow> int \<Rightarrow> int list" where
  "py_range i stop step =
     (if 0 < step \<and> i < stop then i # py_range (i + step) stop step else [])"
  by pat_completeness auto
termination
  by (relation "measure (\<lambda>(i, stop, step). nat (stop - i))") auto

declare py_range.simps [simp del]

subsection \<open>SciPy helpers\<close>

text \<open>
  \<open>scipy.fft.fft\<close> is the discrete Fourier transform: bin \<open>k\<close> of a signal of length
  \<open>n\<close> is the sum of \<open>x\<^sub>j \<sqdot> exp (- 2 \<pi> \<i> j k / n)\<close> over \<open>j < n\<close>. It raises on an empty
  array.
\<close>

definition fft :: "real list \<Rightarrow> exn + complex list" where
  "fft xs =
     (let n = length xs
      in if n = 0
         then Inl (Exn ''ValueError'' ''invalid number of data points (0) specified'')
         else Inr (map (\<lambda>k. \<Sum>j<n. complex_of_real (xs ! j)
                                 * cis (- (2 * pi * real j * real k / real n))) [0..<n]))"

text \<open>
  \<open>scipy.signal.find_peaks(x, height=h)[0]\<close>: the local maxima of \<open>x\<close> that are not
  lower than \<open>h\<close>. A local maximum is a sample, or a run of equal samples, higher than
  the sample before it and the sample after it; a run is reported at its middle, and
  neither the first nor the last sample of the array is one. \<open>look_ahead\<close> walks from
  \<open>i_ahead\<close> to the end of the run of the value \<open>v\<close>.
\<close>

function look_ahead :: "real list \<Rightarrow> real \<Rightarrow> nat \<Rightarrow> nat \<Rightarrow> nat" where
  "look_ahead x v i_max i_ahead =
     (if i_ahead < i_max \<and> x ! i_ahead = v
      then look_ahead x v i_max (Suc i_ahead) else i_ahead)"
  by pat_completeness auto
termination
  by (relation "measure (\<lambda>(x, v, i_max, i_ahead). i_max - i_ahead)") auto

declare look_ahead.simps [simp del]

definition local_maxima_1d :: "real list \<Rightarrow> nat list" where
  "local_maxima_1d x =
     (let i_max = length x - 1
      in concat (map (\<lambda>i. if x ! (i - 1) < x ! i
                            then (let i_ahead = look_ahead x (x ! i) i_max (i + 1)
                                  in if x ! i_ahead < x ! i
                                     then [(i + (i_ahead - 1)) div 2] else [])
                            else [])
                   [1..<i_max]))"

definition find_peaks :: "real list \<Rightarrow> real \<Rightarrow> nat list" where
  "find_peaks x height = filter (\<lambda>p. height \<le> x ! p) (local_maxima_1d x)"

text \<open>
  \<open>scipy.stats.entropy(pk)\<close>: \<open>pk\<close> is divided by its sum, and the entropy is the sum of
  \<open>- p ln p\<close> over the result, a zero contributing zero. A zero sum or a negative entry
  makes the result \<open>nan\<close> or an infinity.
\<close>

definition scipy_entropy :: "real list \<Rightarrow> real option" where
  "scipy_entropy pk =
     (let total = sum_list pk
      in if total = 0 then None
         else (let p = map (\<lambda>x. x / total) pk
               in if list_ex (\<lambda>q. q < 0) p then None
                  else Some (sum_list (map (\<lambda>q. if 0 < q then - (q * ln q) else 0) p))))"

text \<open>
  \<open>scipy.stats.kurtosis(a)\<close> and \<open>scipy.stats.skew(a)\<close>, with their defaults: with
  \<open>m\<^sub>k\<close> the mean of the \<open>k\<close>-th powers of the deviations from the mean, the kurtosis is
  \<open>m\<^sub>4 / m\<^sub>2\<^sup>2 - 3\<close> and the skewness \<open>m\<^sub>3 / m\<^sub>2\<^bsup>3/2\<^esup>\<close>. On an array whose samples are
  all equal \<open>m\<^sub>2\<close> is zero, the quotient is zero by zero and the result is \<open>nan\<close>.
\<close>

definition central_moment :: "nat \<Rightarrow> real list \<Rightarrow> real option" where
  "central_moment k a =
     (case np_mean a of
        None \<Rightarrow> None
      | Some m \<Rightarrow> np_mean (map (\<lambda>x. (x - m) ^ k) a))"

definition kurtosis :: "real list \<Rightarrow> real option" where
  "kurtosis a =
     (case (central_moment 2 a, central_moment 4 a) of
        (Some m2, Some m4) \<Rightarrow> if m2 = 0 then None else Some (m4 / m2\<^sup>2 - 3)
      | _ \<Rightarrow> None)"

definition skew :: "real list \<Rightarrow> real option" where
  "skew a =
     (case (central_moment 2 a, central_moment 3 a) of
        (Some m2, Some m3) \<Rightarrow> if m2 = 0 then None else Some (m3 / (m2 powr 1.5))
      | _ \<Rightarrow> None)"

subsection \<open>Spectral features\<close>

text \<open>
  Each of the four starts from the magnitudes of the transform and keeps the first half
  of the bins.
\<close>

definition calculate_spectral_flatness :: "real list \<Rightarrow> exn + real option" where
  "calculate_spectral_flatness audio_data =
     try_bind (fft audio_data) (\<lambda>transformed.
       let spectrum = map cmod transformed;
           spectrum = take (length spectrum div 2) spectrum
       in Inr (case np_mean (map (\<lambda>s. ln (s + 1 / 10 ^ 10)) spectrum) of
                 None \<Rightarrow> None
               | Some mean_log \<Rightarrow>
                   (let geometric_mean = exp mean_log
                    in case np_mean spectrum of
                         None \<Rightarrow> None
                       | Some arithmetic_mean \<Rightarrow>
                           Some (geometric_mean / (arithmetic_mean + 1 / 10 ^ 10)))))"

text \<open>\<open>1/sample_rate\<close> divides two Python integers and raises when the rate is zero.\<close>

definition calculate_spectral_centroid :: "real list \<Rightarrow> nat \<Rightarrow> exn + real option" where
  "calculate_spectral_centroid audio_data sample_rate =
     try_bind (fft audio_data) (\<lambda>transformed.
       let spectrum = map cmod transformed
       in if sample_rate = 0 then Inl (Exn ''ZeroDivisionError'' ''division by zero'')
          else (let freqs = np_fftfreq (length audio_data) (1 / real sample_rate);
                    freqs = take (length freqs div 2) freqs;
                    spectrum = take (length spectrum div 2) spectrum;
                    centroid = sum_list (map2 (\<lambda>f s. f * s) freqs spectrum)
                                 / (sum_list spectrum + 1 / 10 ^ 10)
                in Inr (Some centroid)))"

definition calculate_spectral_rolloff :: "real list \<Rightarrow> nat \<Rightarrow> exn + real option" where
  "calculate_spectral_rolloff audio_data sample_rate =
     try_bind (fft audio_data) (\<lambda>transformed.
       let spectrum = map cmod transformed;
           spectrum = take (length spectrum div 2) spectrum;
           total_energy = sum_list spectrum;
           threshold = 0.85 * total_energy;
           cumsum = np_cumsum spectrum;
           rolloff_idx = filter (\<lambda>i. cumsum ! i \<ge> threshold) [0..<length cumsum]
       in if length rolloff_idx > 0
          then (let rolloff_freq = real (hd rolloff_idx) * real sample_rate
                                     / real (2 * length spectrum)
                in Inr (Some rolloff_freq))
          else Inr (Some 0.0))"

definition calculate_mfcc_variance :: "real list \<Rightarrow> nat \<Rightarrow> exn + real option" where
  "calculate_mfcc_variance audio_data sample_rate =
     try_bind (fft audio_data) (\<lambda>transformed.
       let spectrum = map cmod transformed;
           spectrum = take (length spectrum div 2) spectrum;
           mel_spectrum = map (\<lambda>s. ln (s + 1 / 10 ^ 10)) spectrum;
           variance = np_var mel_spectrum
       in Inr variance)"

subsection \<open>Autocorrelation features\<close>

text \<open>
  \<open>autocorr[peaks + 1]\<close> raises \<open>IndexError\<close> on an index past the end of the array;
  NumPy's message, which names the index and the size, is abridged here.
\<close>

definition calculate_harmonic_ratio :: "real list \<Rightarrow> exn + real option" where
  "calculate_harmonic_ratio audio_data =
     try_bind (np_correlate_full audio_data audio_data) (\<lambda>autocorr.
       let autocorr = drop (length autocorr div 2) autocorr
       in if length autocorr < 2 then Inr (Some 0.5)
          else (let peaks = find_peaks (drop 1 autocorr) 0
                in if length peaks > 0
                   then (if list_ex (\<lambda>p. length autocorr \<le> p + 1) peaks
                         then Inl (Exn ''IndexError'' ''index out of bounds'')
                         else try_bind (np_max autocorr) (\<lambda>highest.
                           case np_mean (map (\<lambda>p. autocorr ! (p + 1)) peaks) of
                             None \<Rightarrow> Inr None
                           | Some mean_peak \<Rightarrow>
                               (let harmonic_strength = mean_peak / (highest + 1 / 10 ^ 10)
                                in Inr (Some (min harmonic_strength 1.0)))))
                   else Inr (Some 0.3)))"

definition calculate_jitter :: "real list \<Rightarrow> nat \<Rightarrow> exn + real option" where
  "calculate_jitter audio_data sample_rate =
     try_bind (np_correlate_full audio_data audio_data) (\<lambda>autocorr.
       let autocorr = drop (length autocorr div 2) autocorr
       in try_bind (np_max autocorr) (\<lambda>highest.
            let peaks = find_peaks (drop 1 autocorr) (0.3 * highest)
            in if length peaks > 1
               then (let periods = np_diff (map real peaks)
                     in case (np_std periods, np_mean periods) of
                          (Some deviation, Some mean_period) \<Rightarrow>
                            (let jitter = deviation / (mean_period + 1 / 10 ^ 10)
                             in Inr (Some (min jitter 1.0)))
                        | _ \<Rightarrow> Inr None)
               else Inr (Some 0.01)))"

subsection \<open>\<open>_calculate_zero_crossing_rate\<close> and \<open>_calculate_zcr_std\<close>\<close>

text \<open>
  On an empty array the quotient is zero by zero: \<open>nan\<close>, with a warning and no
  exception.
\<close>

definition calculate_zero_crossing_rate :: "real list \<Rightarrow> real option" where
  "calculate_zero_crossing_rate audio_data =
     (let zero_crossings = sum_list (map abs (np_diff (map sgn audio_data))) / 2
      in if length audio_data = 0 then None
         else Some (zero_crossings / real (length audio_data)))"

definition calculate_zcr_std :: "real list \<Rightarrow> real option" where
  "calculate_zcr_std audio_data =
     (let frame_length = 1024;
          hop_length = 512;
          zcr_values =
            map (\<lambda>i. calculate_zero_crossing_rate (take frame_length (drop (nat i) audio_data)))
              (py_range 0 (int (length audio_data) - int frame_length) hop_length)
      in if zcr_values \<noteq> []
         then (case those zcr_values of None \<Rightarrow> None | Some vs \<Rightarrow> np_std vs)
         else Some 0.0)"

subsection \<open>Framed energy features\<close>

definition calculate_shimmer :: "real list \<Rightarrow> real option" where
  "calculate_shimmer audio_data =
     (let frame_length = 1024;
          hop_length = 512;
          amplitudes =
            map (\<lambda>i. let frame = take frame_length (drop (nat i) audio_data)
                      in map_option sqrt (np_mean (map (\<lambda>x. x\<^sup>2) frame)))
              (py_range 0 (int (length audio_data) - int frame_length) hop_length)
      in if length amplitudes > 1
         then (case those amplitudes of
                 None \<Rightarrow> None
               | Some amps \<Rightarrow>
                   (case (np_std amps, np_mean amps) of
                      (Some deviation, Some mean_amplitude) \<Rightarrow>
                        (let shimmer = deviation / (mean_amplitude + 1 / 10 ^ 10)
                         in Some (min shimmer 1.0))
                    | _ \<Rightarrow> None))
         else Some 0.05)"

definition calculate_energy_entropy :: "real list \<Rightarrow> real option" where
  "calculate_energy_entropy audio_data =
     (let frame_length = 1024;
          hop_length = 512;
          energies =
            map (\<lambda>i. let frame = take frame_length (drop (nat i) audio_data)
                      in sum_list (map (\<lambda>x. x\<^sup>2) frame))
              (py_range 0 (int (length audio_data) - int frame_length) hop_length)
      in if energies \<noteq> []
         then (let energies = map (\<lambda>e. e / (sum_list energies + 1 / 10 ^ 10)) energies
               in scipy_entropy (map (\<lambda>e. e + 1 / 10 ^ 10) energies))
         else Some 0.0)"

text \<open>
  A root mean square that is \<open>nan\<close> fails the test \<open>rms > 0\<close>, as a zero does.
\<close>

definition calculate_dynamic_range :: "real list \<Rightarrow> exn + real option" where
  "calculate_dynamic_range audio_data =
     try_bind (np_max (map abs audio_data)) (\<lambda>max_amplitude.
       case map_option sqrt (np_mean (map (\<lambda>x. x\<^sup>2) audio_data)) of
         None \<Rightarrow> Inr (Some 0.0)
       | Some rms \<Rightarrow>
           if rms > 0
           then (let dynamic_range = 20 * log 10 (max_amplitude / (rms + 1 / 10 ^ 10))
                 in Inr (Some dynamic_range))
           else Inr (Some 0.0))"

subsection \<open>\<open>_extract_features\<close>\<close>

text \<open>
  The dictionary \<open>features\<close> as the list of its items, in the order of insertion. A
  value is \<^term>\<open>None\<close> when it is not a finite float. The first statement that raises
  ends the method.
\<close>

definition extract_features ::
    "real list \<Rightarrow> nat \<Rightarrow> string \<Rightarrow> exn + (string \<times> real option) list" where
  "extract_features audio_data sample_rate language =
     try_bind (calculate_spectral_flatness audio_data) (\<lambda>v1.
     try_bind (calculate_spectral_centroid audio_data sample_rate) (\<lambda>v2.
     try_bind (calculate_spectral_rolloff audio_data sample_rate) (\<lambda>v3.
     try_bind (calculate_harmonic_ratio audio_data) (\<lambda>v4.
     let v5 = calculate_zero_crossing_rate audio_data;
         v6 = calculate_zcr_std audio_data
     in
     try_bind (calculate_jitter audio_data sample_rate) (\<lambda>v7.
     let v8 = calculate_shimmer audio_data
     in
     try_bind (calculate_mfcc_variance audio_data sample_rate) (\<lambda>v9.
     let v10 = calculate_energy_entropy audio_data
     in
     try_bind (calculate_dynamic_range audio_data) (\<lambda>v11.
     let v12 = kurtosis audio_data;
         v13 = skew audio_data
     in Inr [(''spectral_flatness'', v1),
             (''spectral_centroid'', v2),
             (''spectral_rolloff'', v3),
             (''harmonic_ratio'', v4),
             (''zero_crossing_rate'', v5),
             (''zcr_std'', v6),
             (''jitter'', v7),
             (''shimmer'', v8),
             (''mfcc_variance'', v9),
             (''energy_entropy'', v10),
             (''dynamic_range'', v11),
             (''signal_kurtosis'', v12),
             (''signal_skewness'', v13)])))))))"

text \<open>The thirteen keys of the feature dictionary, in the order of insertion.\<close>

definition feature_keys :: "string list" where
  "feature_keys =
     [''spectral_flatness'', ''spectral_centroid'', ''spectral_rolloff'', ''harmonic_ratio'',
      ''zero_crossing_rate'', ''zcr_std'', ''jitter'', ''shimmer'', ''mfcc_variance'',
      ''energy_entropy'', ''dynamic_range'', ''signal_kurtosis'', ''signal_skewness'']"

section \<open>\<open>audio_processor.py\<close>\<close>

subsection \<open>What the method receives from pydub and from Python\<close>

text \<open>
  The fields of an \<open>AudioSegment\<close> the method reads: \<open>len(audio)\<close> (milliseconds),
  \<open>audio.channels\<close>, \<open>audio.frame_rate\<close> and \<open>audio.get_array_of_samples()\<close>.
\<close>

record audio_segment =
  len_ms :: nat
  channels :: nat
  frame_rate :: nat
  array_of_samples :: "int list"

type_synonym bytes = "char list"

text \<open>
  The decoder and the two conversions are pydub's: they are parameters of the model, and
  each may raise. \<open>fmt_2f\<close> is the text of a float under the format \<open>.2f\<close>.
\<close>

record pydub =
  from_file :: "bytes \<Rightarrow> exn + audio_segment"
  set_channels :: "audio_segment \<Rightarrow> nat \<Rightarrow> exn + audio_segment"
  set_frame_rate :: "audio_segment \<Rightarrow> nat \<Rightarrow> exn + audio_segment"
  fmt_2f :: "real \<Rightarrow> string"

definition target_sample_rate :: nat where
  "target_sample_rate = 16000"

definition max_duration :: real where
  "max_duration = 300"

definition min_duration :: real where
  "min_duration = 0.5"

subsection \<open>\<open>_apply_preemphasis\<close>\<close>

text \<open>
  \<open>audio_data[0]\<close> raises \<open>IndexError\<close> on an empty array. \<open>audio_data[1:]\<close> is the
  tail and \<open>audio_data[:-1]\<close> all but the last sample; both have the same length.
\<close>

definition apply_preemphasis :: "real list \<Rightarrow> real \<Rightarrow> exn + real list" where
  "apply_preemphasis audio_data coef =
     (case audio_data of
        [] \<Rightarrow> Inl (Exn ''IndexError'' ''index 0 is out of bounds for axis 0 with size 0'')
      | x0 # rest \<Rightarrow>
          Inr (x0 # map2 (\<lambda>a b. a - coef * b) (tl audio_data) (butlast audio_data)))"

subsection \<open>\<open>process_audio\<close>\<close>

text \<open>The body of the \<open>try\<close> block.\<close>

definition process_audio_body :: "pydub \<Rightarrow> bytes \<Rightarrow> exn + (real list \<times> nat \<times> real)" where
  "process_audio_body lib audio_bytes =
     (case from_file lib audio_bytes of
        Inl e \<Rightarrow> Inl e
      | Inr audio \<Rightarrow>
          (let duration = real (len_ms audio) / 1000
           in if duration < min_duration
              then Inl (Exn ''ValueError''
                     (''Audio too short: '' @ fmt_2f lib duration @ ''s (minimum: 0.5s)''))
              else if duration > max_duration
              then Inl (Exn ''ValueError''
                     (''Audio too long: '' @ fmt_2f lib duration @ ''s (maximum: 300s)''))
              else
                (case (if channels audio > 1 then set_channels lib audio 1 else Inr audio) of
                   Inl e \<Rightarrow> Inl e
                 | Inr audio \<Rightarrow>
                     (case (if frame_rate audio \<noteq> target_sample_rate
                            then set_frame_rate lib audio target_sample_rate
                            else Inr audio) of
                        Inl e \<Rightarrow> Inl e
                      | Inr audio \<Rightarrow>
                          (let samples = array_of_samples audio;
                               audio_data = map (\<lambda>s. real_of_int s / 2 ^ 15) samples;
                               mean = sum_list audio_data / real (length audio_data);
                               audio_data = map (\<lambda>x. x - mean) audio_data
                           in case apply_preemphasis audio_data 0.97 of
                                Inl e \<Rightarrow> Inl e
                              | Inr audio_data \<Rightarrow>
                                  Inr (audio_data, target_sample_rate, duration))))))"

text \<open>
  The handler \<open>except Exception as e\<close>: whatever the body raised is raised again as a
  \<open>ValueError\<close> around its message.
\<close>

definition process_audio :: "pydub \<Rightarrow> bytes \<Rightarrow> exn + (real list \<times> nat \<times> real)" where
  "process_audio lib audio_bytes =
     (case process_audio_body lib audio_bytes of
        Inl e \<Rightarrow> Inl (Exn ''ValueError'' (''Failed to process audio file: '' @ exc_msg e))
      | Inr r \<Rightarrow> Inr r)"

section \<open>The descriptions of the specification\<close>

subsection \<open>The rule table of the specification\<close>

text \<open>
  The specification describes the scorer as a loop over a table of seven rules, each a
  threshold check (feature, comparison, threshold) with a weight. This is that
  description, to be compared with the code above.
\<close>

datatype comparison = Above | Below

type_synonym threshold_check = "(feature_vector \<Rightarrow> real) \<times> comparison \<times> real"

type_synonym scoring_rule = "threshold_check \<times> real"

fun check_holds :: "feature_vector \<Rightarrow> threshold_check \<Rightarrow> bool" where
  "check_holds fv (feature, Above, threshold) = (feature fv > threshold)"
| "check_holds fv (feature, Below, threshold) = (feature fv < threshold)"

definition language_multiplier :: "string \<Rightarrow> real" where
  "language_multiplier language =
     (if language = ''tamil'' then 1.1
      else if language = ''english'' then 1.0
      else if language = ''hindi'' then 1.05
      else if language = ''malayalam'' then 1.1
      else if language = ''telugu'' then 1.08
      else 1.0)"

definition seven_rules :: "real \<Rightarrow> scoring_rule list" where
  "seven_rules m =
     [((spectral_flatness, Above, 0.15), 2.0),
      ((harmonic_ratio, Above, 0.75), 1.5),
      ((zcr_std, Below, 0.02), 1.8 * m),
      ((jitter, Below, 0.005), 2.2),
      ((shimmer, Below, 0.05), 2.0),
      ((mfcc_variance, Below, 2.5), 1.5),
      ((energy_entropy, Below, 3.5), 1.0)]"

text \<open>
  One pass over the table: the weight goes to \<open>ai_score\<close> when the comparison holds and
  to \<open>total_weight\<close> in every case.
\<close>

fun iterate_rules :: "feature_vector \<Rightarrow> scoring_rule list \<Rightarrow> real \<times> real \<Rightarrow> real \<times> real" where
  "iterate_rules fv [] acc = acc"
| "iterate_rules fv ((check, weight) # rs) (ai_score, total_weight) =
     iterate_rules fv rs
       (if check_holds fv check then ai_score + weight else ai_score,
        total_weight + weight)"

definition rule_table_probability :: "feature_vector \<Rightarrow> string \<Rightarrow> real" where
  "rule_table_probability fv language =
     (case iterate_rules fv (seven_rules (language_multiplier language)) (0, 0) of
        (ai_score, total_weight) \<Rightarrow>
          if total_weight = 0 then 0.5 else ai_score / total_weight)"

subsection \<open>The indicator tables\<close>

text \<open>
  The two indicator lists as tables: five AI-leaning checks and four human-leaning
  checks, each with the label it contributes, in the order of the lists.
\<close>

definition ai_indicator_table :: "(threshold_check \<times> string) list" where
  "ai_indicator_table =
     [((spectral_flatness, Above, 0.15), ''High spectral uniformity''),
      ((jitter, Below, 0.005), ''Low pitch jitter''),
      ((shimmer, Below, 0.05), ''Low amplitude shimmer''),
      ((zcr_std, Below, 0.02), ''Consistent zero-crossing rate''),
      ((harmonic_ratio, Above, 0.75), ''Strong harmonic structure'')]"

definition human_indicator_table :: "(threshold_check \<times> string) list" where
  "human_indicator_table =
     [((jitter, Above, 0.005), ''Natural pitch variation''),
      ((shimmer, Above, 0.05), ''Natural amplitude variation''),
      ((zcr_std, Above, 0.02), ''Variable articulation''),
      ((energy_entropy, Above, 3.5), ''Dynamic energy distribution'')]"

definition labels_of :: "feature_vector \<Rightarrow> (threshold_check \<times> string) list \<Rightarrow> string list" where
  "labels_of fv table = map snd (filter (\<lambda>entry. check_holds fv (fst entry)) table)"

subsection \<open>The framed zero-crossing deviation of the specification\<close>

text \<open>
  The specification defines the zero-crossing rate as the count of sign changes divided
  by the sample count, a sign change being a pair of adjacent samples of opposite sign,
  and \<open>zcr_std\<close> as the standard deviation of that rate over every full frame of 1024
  samples at a hop of 512: the frames that start at a multiple of 512 and end within
  the signal. With no full frame the value is 0.0.
\<close>

fun sign_changes :: "real list \<Rightarrow> nat" where
  "sign_changes (x # y # zs) = (if x * y < 0 then 1 else 0) + sign_changes (y # zs)"
| "sign_changes zs = 0"

definition sign_change_rate :: "real list \<Rightarrow> real" where
  "sign_change_rate xs = real (sign_changes xs) / real (length xs)"

definition standard_deviation :: "real list \<Rightarrow> real" where
  "standard_deviation ys =
     (let n = real (length ys);
          m = sum_list ys / n
      in sqrt (sum_list (map (\<lambda>y. (y - m)\<^sup>2) ys) / n))"

definition full_frames :: "real list \<Rightarrow> real list list" where
  "full_frames xs =
     map (\<lambda>k. take 1024 (drop (512 * k) xs))
       (filter (\<lambda>k. 512 * k + 1024 \<le> length xs) [0..<length xs])"

definition zcr_std_of_full_frames :: "real list \<Rightarrow> real" where
  "zcr_std_of_full_frames xs =
     (if full_frames xs = [] then 0
      else standard_deviation (map sign_change_rate (full_frames xs)))"

section \<open>Example inputs\<close>

text \<open>
  Handcrafted feature vectors: one on the AI-leaning side of every threshold, one on the
  other side of every threshold, and the second with a flat spectrum.
\<close>

definition example_ai_features :: feature_vector where
  "example_ai_features =
     \<lparr>spectral_flatness = 0.5, spectral_centroid = 1000, spectral_rolloff = 3000,
      harmonic_ratio = 0.9, zero_crossing_rate = 0.1, zcr_std = 0.01, jitter = 0.001,
      shimmer = 0.01, mfcc_variance = 1, energy_entropy = 2, dynamic_range = 10,
      signal_kurtosis = 0, signal_skewness = 0\<rparr>"

definition example_human_features :: feature_vector where
  "example_human_features =
     \<lparr>spectral_flatness = 0.05, spectral_centroid = 1000, spectral_rolloff = 3000,
      harmonic_ratio = 0.4, zero_crossing_rate = 0.1, zcr_std = 0.05, jitter = 0.02,
      shimmer = 0.2, mfcc_variance = 6, energy_entropy = 4, dynamic_range = 10,
      signal_kurtosis = 0, signal_skewness = 0\<rparr>"

definition example_flat_features :: feature_vector where
  "example_flat_features = example_human_features\<lparr>spectral_flatness := 0.5\<rparr>"

text \<open>A vector whose only AI-leaning values are \<open>mfcc_variance\<close> and \<open>energy_entropy\<close>.\<close>

definition example_uniform_features :: feature_vector where
  "example_uniform_features = example_human_features\<lparr>mfcc_variance := 1, energy_entropy := 2\<rparr>"

text \<open>
  A stand-in for pydub: the empty byte string fails to decode; in any other, each byte
  stands for 100 milliseconds of stereo sound at 8000 Hz, the byte's code being the
  sample. The conversions only relabel the segment, and the format knows the two
  durations of the examples.
\<close>

definition example_pydub :: pydub where
  "example_pydub =
     \<lparr>from_file = (\<lambda>b. if b = [] then Inl (Exn ''CouldntDecodeError'' ''Decoding failed'')
                         else Inr \<lparr>len_ms = 100 * length b, channels = 2, frame_rate = 8000,
                                   array_of_samples = map (\<lambda>c. int (of_char c)) b\<rparr>),
      set_channels = (\<lambda>a n. Inr (a\<lparr>channels := n\<rparr>)),
      set_frame_rate = (\<lambda>a r. Inr (a\<lparr>frame_rate := r\<rparr>)),
      fmt_2f = (\<lambda>d. if d = 0.4 then ''0.40'' else if d = 300.1 then ''300.10'' else ''?'')\<rparr>"

text \<open>
  Two signals that change sign once: 1024 samples at one followed by 513, respectively
  512, samples at minus one.
\<close>

definition example_flip_1537 :: "real list" where
  "example_flip_1537 = replicate 1024 1 @ replicate 513 (- 1)"

definition example_flip_1536 :: "real list" where
  "example_flip_1536 = replicate 1024 1 @ replicate 512 (- 1)"

text \<open>One second of digital silence at 16000 Hz.\<close>

definition silent_clip :: "real list" where
  "silent_clip = replicate 16000 0"

section \<open>Properties of the scorer\<close>

lemma lang_weight_eq:
  "dict_get (dict_get language_models language []) ''phoneme_weight'' 1.0
     = language_multiplier language"
  by (simp add: dict_get_def language_models_def language_multiplier_def)

lemma language_multiplier_pos: "0 < language_multiplier language"
  by (simp add: language_multiplier_def)

text \<open>The probability as one quotient: the weights of the rules that hold over all weights.\<close>

lemma calculate_ai_probability_eq:
  "calculate_ai_probability fv language =
     ((if spectral_flatness fv > 0.15 then 2.0 else 0)
      + (if harmonic_ratio fv > 0.75 then 1.5 else 0)
      + (if zcr_std fv < 0.02 then 1.8 * language_multiplier language else 0)
      + (if jitter fv < 0.005 then 2.2 else 0)
      + (if shimmer fv < 0.05 then 2.0 else 0)
      + (if mfcc_variance fv < 2.5 then 1.5 else 0)
      + (if energy_entropy fv < 3.5 then 1.0 else 0))
     / (10.2 + 1.8 * language_multiplier language)"
proof -
  have pos: "0 < language_multiplier language"
    by (rule language_multiplier_pos)
  show ?thesis
    unfolding calculate_ai_probability_def lang_weight_eq thresholds_defs
    using pos by (simp add: Let_def)
qed

lemma probability_all:
  assumes "spectral_flatness fv > 0.15" "harmonic_ratio fv > 0.75" "zcr_std fv < 0.02"
    "jitter fv < 0.005" "shimmer fv < 0.05" "mfcc_variance fv < 2.5" "energy_entropy fv < 3.5"
  shows "calculate_ai_probability fv language = 1"
proof -
  have pos: "0 < language_multiplier language"
    by (rule language_multiplier_pos)
  show ?thesis
    unfolding calculate_ai_probability_eq using pos assms by simp
qed

lemma probability_none:
  assumes "\<not> spectral_flatness fv > 0.15" "\<not> harmonic_ratio fv > 0.75"
    "\<not> zcr_std fv < 0.02" "\<not> jitter fv < 0.005" "\<not> shimmer fv < 0.05"
    "\<not> mfcc_variance fv < 2.5" "\<not> energy_entropy fv < 3.5"
  shows "calculate_ai_probability fv language = 0"
  unfolding calculate_ai_probability_eq using assms by simp

lemma probability_bounds:
  "0 \<le> calculate_ai_probability fv language \<and> calculate_ai_probability fv language \<le> 1"
proof -
  have pos: "0 < language_multiplier language"
    by (rule language_multiplier_pos)
  show ?thesis
    unfolding calculate_ai_probability_eq
    using pos by (simp add: divide_le_eq)
qed

lemma probability_flat_english:
  "calculate_ai_probability example_flat_features ''english'' = 1 / 6"
  by (simp add: calculate_ai_probability_eq example_flat_features_def
      example_human_features_def language_multiplier_def)

text \<open>
  C1. For every feature vector and every language code, the probability that
  \<open>_calculate_ai_probability\<close> returns is the one obtained by iterating the seven fixed
  rules of the specification: a rule's weight is added to \<open>ai_score\<close> when its comparison
  holds and to \<open>total_weight\<close> always, the multiplier of the \<open>zcr_std\<close> rule comes from the
  five-entry language table with 1.0 for any other code, and the result is
  \<open>ai_score / total_weight\<close>, or 0.5 were the total zero.
\<close>

theorem scorer_iterates_seven_rules:
  "calculate_ai_probability fv language = rule_table_probability fv language"
proof -
  have pos: "0 < language_multiplier language"
    by (rule language_multiplier_pos)
  show ?thesis
    unfolding calculate_ai_probability_def rule_table_probability_def seven_rules_def
      lang_weight_eq thresholds_defs
    using pos by (simp add: Let_def)
qed

section \<open>Properties of \<open>detect\<close>\<close>

lemma detect_classification:
  "classification (detect ex fmt a sr lang inc) =
     (if calculate_ai_probability (ex a sr lang) lang > 0.5
      then ''ai_generated'' else ''human_generated'')"
  by (simp add: detect_def Let_def)

lemma detect_confidence:
  "confidence_score (detect ex fmt a sr lang inc) =
     py_round (max (calculate_ai_probability (ex a sr lang) lang)
                   (1 - calculate_ai_probability (ex a sr lang) lang)) 4"
  by (simp add: detect_def Let_def max_def)

text \<open>Rounding to four places keeps a value between one half and one there.\<close>

lemma py_round_4_bounds:
  assumes "1 / 2 \<le> x" "x \<le> 1"
  shows "1 / 2 \<le> py_round x 4 \<and> py_round x 4 \<le> 1"
proof -
  define y where "y = x * 10 ^ 4"
  define f where "f = \<lfloor>y\<rfloor>"
  define n where "n = (if y - of_int f < 1 / 2 then f
          else if 1 / 2 < y - of_int f then f + 1
          else if even f then f
          else f + 1)"
  have y: "5000 \<le> y" "y \<le> 10000" using assms by (simp_all add: y_def)
  have f1: "5000 \<le> f" using y(1) by (simp add: f_def le_floor_iff)
  have fy: "of_int f \<le> y" by (simp add: f_def)
  have lo: "5000 \<le> n" using f1 by (simp add: n_def)
  have hi: "n \<le> 10000"
  proof (cases "y - of_int f < 1 / 2")
    case True
    have "real_of_int f \<le> 10000" using fy y(2) by linarith
    then have "f \<le> 10000" by linarith
    with True show ?thesis by (simp add: n_def)
  next
    case False
    then have "real_of_int f + 1 / 2 \<le> 10000" using y(2) by linarith
    then have "f \<le> 9999" by linarith
    then show ?thesis by (simp add: n_def)
  qed
  have eq: "py_round x 4 = of_int n / 10 ^ 4"
    unfolding py_round_def Let_def y_def [symmetric] f_def [symmetric] n_def
    by simp
  have "real_of_int 5000 \<le> of_int n" "real_of_int n \<le> of_int 10000"
    using lo hi by (simp_all only: of_int_le_iff)
  then show ?thesis unfolding eq by simp
qed

text \<open>
  C3. A feature vector on the AI-leaning side of all seven thresholds gets probability 1
  and the classification \<open>ai_generated\<close>; a feature vector for which none of the seven
  comparisons holds gets a probability below 0.5 and the classification
  \<open>human_generated\<close>.
\<close>

theorem threshold_extremes_classified:
  assumes "extractor audio_data sample_rate language = fv"
  shows "(0.15 < spectral_flatness fv \<and> 0.75 < harmonic_ratio fv \<and> zcr_std fv < 0.02
            \<and> jitter fv < 0.005 \<and> shimmer fv < 0.05 \<and> mfcc_variance fv < 2.5
            \<and> energy_entropy fv < 3.5
          \<longrightarrow> calculate_ai_probability fv language = 1
            \<and> classification (detect extractor fmt_percent audio_data sample_rate
                  language include_features) = ''ai_generated'')
       \<and> (\<not> 0.15 < spectral_flatness fv \<and> \<not> 0.75 < harmonic_ratio fv
            \<and> \<not> zcr_std fv < 0.02 \<and> \<not> jitter fv < 0.005 \<and> \<not> shimmer fv < 0.05
            \<and> \<not> mfcc_variance fv < 2.5 \<and> \<not> energy_entropy fv < 3.5
          \<longrightarrow> calculate_ai_probability fv language < 0.5
            \<and> classification (detect extractor fmt_percent audio_data sample_rate
                  language include_features) = ''human_generated'')"
proof (intro conjI impI)
  assume "0.15 < spectral_flatness fv \<and> 0.75 < harmonic_ratio fv \<and> zcr_std fv < 0.02
            \<and> jitter fv < 0.005 \<and> shimmer fv < 0.05 \<and> mfcc_variance fv < 2.5
            \<and> energy_entropy fv < 3.5"
  then show p1: "calculate_ai_probability fv language = 1"
    by (intro probability_all) simp_all
  show "classification (detect extractor fmt_percent audio_data sample_rate
                  language include_features) = ''ai_generated''"
    by (simp add: detect_classification assms p1)
next
  assume "\<not> 0.15 < spectral_flatness fv \<and> \<not> 0.75 < harmonic_ratio fv
            \<and> \<not> zcr_std fv < 0.02 \<and> \<not> jitter fv < 0.005 \<and> \<not> shimmer fv < 0.05
            \<and> \<not> mfcc_variance fv < 2.5 \<and> \<not> energy_entropy fv < 3.5"
  then have p0: "calculate_ai_probability fv language = 0"
    by (intro probability_none) simp_all
  then show "calculate_ai_probability fv language < 0.5" by simp
  show "classification (detect extractor fmt_percent audio_data sample_rate
                  language include_features) = ''human_generated''"
    by (simp add: detect_classification assms p0)
qed

theorem threshold_extremes_classified_witness:
  "calculate_ai_probability example_ai_features ''english'' = 1
   \<and> classification (detect (\<lambda>a sr l. example_ai_features) (\<lambda>c. ''100.0%'') []
        16000 ''english'' False) = ''ai_generated''
   \<and> calculate_ai_probability example_human_features ''tamil'' < 0.5
   \<and> classification (detect (\<lambda>a sr l. example_human_features) (\<lambda>c. ''100.0%'') []
        16000 ''tamil'' False) = ''human_generated''"
proof -
  have a: "(\<lambda>a sr l. example_ai_features) ([]::real list) (16000::nat) ''english''
             = example_ai_features"
    by simp
  have h: "(\<lambda>a sr l. example_human_features) ([]::real list) (16000::nat) ''tamil''
             = example_human_features"
    by simp
  show ?thesis
    using threshold_extremes_classified
            [OF a, where fmt_percent = "\<lambda>c. ''100.0%''" and include_features = False]
      threshold_extremes_classified
            [OF h, where fmt_percent = "\<lambda>c. ''100.0%''" and include_features = False]
    by (simp add: example_ai_features_def example_human_features_def)
qed

text \<open>
  C4, as the code has it. The classification is \<open>ai_generated\<close> exactly when the
  probability exceeds 0.5 and \<open>human_generated\<close> otherwise. The confidence of the chosen
  class is \<open>max p (1 - p)\<close>, between 0.5 and 1; the \<open>confidence_score\<close> that \<open>detect\<close>
  returns is that value rounded to four decimal places, and lies between 0.5 and 1
  as well.
\<close>

theorem classification_and_rounded_confidence:
  fixes extractor :: "real list \<Rightarrow> nat \<Rightarrow> string \<Rightarrow> feature_vector"
    and fmt_percent :: "real \<Rightarrow> string"
    and audio_data :: "real list" and sample_rate :: nat and language :: string
    and include_features :: bool
  defines "p \<equiv> calculate_ai_probability (extractor audio_data sample_rate language)
                  language"
  defines "r \<equiv> detect extractor fmt_percent audio_data sample_rate language
                  include_features"
  shows "(classification r = ''ai_generated'') = (0.5 < p)
       \<and> (classification r = ''human_generated'') = (\<not> 0.5 < p)
       \<and> 0.5 \<le> max p (1 - p) \<and> max p (1 - p) \<le> 1
       \<and> confidence_score r = py_round (max p (1 - p)) 4
       \<and> 0.5 \<le> confidence_score r \<and> confidence_score r \<le> 1"
proof -
  have b: "0 \<le> p \<and> p \<le> 1"
    unfolding p_def by (rule probability_bounds)
  then have m: "1 / 2 \<le> max p (1 - p)" "max p (1 - p) \<le> 1"
    by (simp_all add: max_def)
  have c: "confidence_score r = py_round (max p (1 - p)) 4"
    unfolding r_def p_def by (rule detect_confidence)
  have "1 / 2 \<le> confidence_score r \<and> confidence_score r \<le> 1"
    unfolding c using m by (rule py_round_4_bounds)
  moreover have "(classification r = ''ai_generated'') = (0.5 < p)"
    "(classification r = ''human_generated'') = (\<not> 0.5 < p)"
    unfolding r_def p_def by (simp_all add: detect_classification)
  ultimately show ?thesis using m c by simp
qed

text \<open>
  The claim C4 as written has the returned confidence equal to \<open>max p (1 - p)\<close>. With
  only the flatness rule holding and the language English the probability is 1/6, the
  maximum is 5/6 and the returned \<open>confidence_score\<close> is 0.8333.
\<close>

theorem returned_confidence_counterexample:
  "confidence_score (detect (\<lambda>a sr l. example_flat_features) (\<lambda>c. ''83.3%'') []
       16000 ''english'' False)
     \<noteq> max (calculate_ai_probability example_flat_features ''english'')
           (1 - calculate_ai_probability example_flat_features ''english'')"
  by (simp add: detect_confidence probability_flat_english py_round_def Let_def)

section \<open>Properties of the indicator lists\<close>

text \<open>
  C7, as the code has it. \<open>ai_indicators\<close> holds, in the order of the table, the label
  of each of five threshold checks that holds: those on \<open>spectral_flatness\<close>, \<open>jitter\<close>,
  \<open>shimmer\<close>, \<open>zcr_std\<close> and \<open>harmonic_ratio\<close>, all five among the seven of the scorer.
  \<open>human_indicators\<close> holds the label of each of four checks that holds: \<open>jitter\<close>,
  \<open>shimmer\<close> and \<open>zcr_std\<close> above their thresholds, and \<open>energy_entropy\<close> above 3.5.
\<close>

theorem indicators_follow_tables:
  "get_ai_indicators fv = labels_of fv ai_indicator_table
   \<and> get_human_indicators fv = labels_of fv human_indicator_table
   \<and> set (map fst ai_indicator_table) \<subseteq> set (map fst (seven_rules m))"
  by (simp add: get_ai_indicators_def get_human_indicators_def labels_of_def
      ai_indicator_table_def human_indicator_table_def seven_rules_def thresholds_defs Let_def)

text \<open>
  The claim C7 as written has every one of the seven AI-leaning comparisons contribute
  a label. Here the comparisons on \<open>mfcc_variance\<close> and \<open>energy_entropy\<close> hold and
  \<open>ai_indicators\<close> is empty.
\<close>

theorem ai_indicators_counterexample:
  "mfcc_variance example_uniform_features < 2.5
   \<and> energy_entropy example_uniform_features < 3.5
   \<and> get_ai_indicators example_uniform_features = []"
  by (simp add: get_ai_indicators_def example_uniform_features_def example_human_features_def
      thresholds_defs Let_def)

section \<open>Properties of the audio processor\<close>

lemma preemphasis_nth:
  assumes "i < length rest"
  shows "map2 (\<lambda>a b. a - coef * b) rest (butlast (x0 # rest)) ! i
           = (x0 # rest) ! Suc i - coef * (x0 # rest) ! i"
proof -
  have "i < length (butlast (x0 # rest))" using assms by (simp del: butlast.simps)
  then have "butlast (x0 # rest) ! i = (x0 # rest) ! i"
    by (rule nth_butlast)
  then show ?thesis using assms by (simp del: butlast.simps)
qed

text \<open>
  C8. On a non-empty signal the pre-emphasis filter returns a signal of the same length
  whose first sample is the first sample of the input and whose sample \<open>i\<close>, for every
  later \<open>i\<close>, is \<open>input[i] - 0.97 * input[i - 1]\<close>.
\<close>

theorem preemphasis_shape:
  assumes "audio_data \<noteq> []"
  shows "\<exists>out. apply_preemphasis audio_data 0.97 = Inr out
           \<and> length out = length audio_data
           \<and> out ! 0 = audio_data ! 0
           \<and> (\<forall>i. 1 \<le> i \<and> i < length audio_data
                  \<longrightarrow> out ! i = audio_data ! i - 0.97 * audio_data ! (i - 1))"
proof -
  from assms obtain x0 rest where xs: "audio_data = x0 # rest"
    by (cases audio_data) auto
  define out where "out = x0 # map2 (\<lambda>a b. a - 0.97 * b) rest (butlast (x0 # rest))"
  have 1: "apply_preemphasis audio_data 0.97 = Inr out"
    by (simp add: apply_preemphasis_def xs out_def)
  have 2: "length out = length audio_data"
    by (simp add: out_def xs)
  have 3: "out ! 0 = audio_data ! 0"
    by (simp add: out_def xs)
  have 4: "out ! i = audio_data ! i - 0.97 * audio_data ! (i - 1)"
    if "1 \<le> i \<and> i < length audio_data" for i
  proof -
    from that obtain j where j: "i = Suc j" "j < length rest"
      by (cases i) (auto simp: xs)
    have "out ! i = map2 (\<lambda>a b. a - 0.97 * b) rest (butlast (x0 # rest)) ! j"
      by (simp add: out_def j)
    also have "\<dots> = (x0 # rest) ! Suc j - 0.97 * (x0 # rest) ! j"
      using j(2) by (rule preemphasis_nth)
    finally show ?thesis by (simp add: xs j)
  qed
  from 1 2 3 4 show ?thesis by blast
qed

theorem preemphasis_shape_witness:
  "[1, 2, 4] \<noteq> ([]::real list)
   \<and> (\<exists>out. apply_preemphasis [1, 2, 4] 0.97 = Inr out \<and> length out = 3
          \<and> out ! 0 = 1 \<and> out ! 1 = 1.03 \<and> out ! 2 = 2.06)"
proof -
  have ne: "[1, 2, 4] \<noteq> ([]::real list)" by simp
  from preemphasis_shape [OF ne] obtain out where
    o: "apply_preemphasis [1, 2, 4] 0.97 = Inr out" "length out = length [1, 2, 4::real]"
      "out ! 0 = [1, 2, 4] ! 0"
      "\<forall>i. 1 \<le> i \<and> i < length [1, 2, 4::real]
           \<longrightarrow> out ! i = [1, 2, 4] ! i - 0.97 * [1, 2, 4] ! (i - 1)"
    by blast
  from o(4) have "out ! 1 = 1.03" "out ! 2 = 2.06"
    by (simp_all add: numeral_2_eq_2)
  with o(1-3) ne show ?thesis by simp
qed

lemma process_audio_decoded:
  assumes "from_file lib audio_bytes = Inr audio"
  shows "process_audio_body lib audio_bytes =
     (let duration = real (len_ms audio) / 1000
           in if duration < min_duration
              then Inl (Exn ''ValueError''
                     (''Audio too short: '' @ fmt_2f lib duration @ ''s (minimum: 0.5s)''))
              else if duration > max_duration
              then Inl (Exn ''ValueError''
                     (''Audio too long: '' @ fmt_2f lib duration @ ''s (maximum: 300s)''))
              else
                (case (if channels audio > 1 then set_channels lib audio 1 else Inr audio) of
                   Inl e \<Rightarrow> Inl e
                 | Inr audio \<Rightarrow>
                     (case (if frame_rate audio \<noteq> target_sample_rate
                            then set_frame_rate lib audio target_sample_rate
                            else Inr audio) of
                        Inl e \<Rightarrow> Inl e
                      | Inr audio \<Rightarrow>
                          (let samples = array_of_samples audio;
                               audio_data = map (\<lambda>s. real_of_int s / 2 ^ 15) samples;
                               mean = sum_list audio_data / real (length audio_data);
                               audio_data = map (\<lambda>x. x - mean) audio_data
                           in case apply_preemphasis audio_data 0.97 of
                                Inl e \<Rightarrow> Inl e
                              | Inr audio_data \<Rightarrow>
                                  Inr (audio_data, target_sample_rate, duration)))))"
  by (simp add: process_audio_body_def assms)

lemma process_audio_body_too_short:
  assumes "from_file lib audio_bytes = Inr audio" "real (len_ms audio) / 1000 < 0.5"
  shows "process_audio_body lib audio_bytes = Inl (Exn ''ValueError''
     (''Audio too short: '' @ fmt_2f lib (real (len_ms audio) / 1000) @ ''s (minimum: 0.5s)''))"
  using assms(2) by (simp add: process_audio_decoded [OF assms(1)] min_duration_def)

lemma process_audio_body_too_long:
  assumes "from_file lib audio_bytes = Inr audio" "300 < real (len_ms audio) / 1000"
  shows "process_audio_body lib audio_bytes = Inl (Exn ''ValueError''
     (''Audio too long: '' @ fmt_2f lib (real (len_ms audio) / 1000) @ ''s (maximum: 300s)''))"
  using assms(2)
  by (simp add: process_audio_decoded [OF assms(1)] min_duration_def max_duration_def)

lemma process_audio_too_short:
  assumes "from_file lib audio_bytes = Inr audio" "real (len_ms audio) / 1000 < 0.5"
  shows "process_audio lib audio_bytes = Inl (Exn ''ValueError''
     (''Failed to process audio file: Audio too short: ''
        @ fmt_2f lib (real (len_ms audio) / 1000) @ ''s (minimum: 0.5s)''))"
  using assms(2) by (simp add: process_audio_def process_audio_decoded [OF assms(1)] min_duration_def)

lemma process_audio_too_long:
  assumes "from_file lib audio_bytes = Inr audio" "300 < real (len_ms audio) / 1000"
  shows "process_audio lib audio_bytes = Inl (Exn ''ValueError''
     (''Failed to process audio file: Audio too long: ''
        @ fmt_2f lib (real (len_ms audio) / 1000) @ ''s (maximum: 300s)''))"
  using assms(2) by (simp add: process_audio_def process_audio_decoded [OF assms(1)] min_duration_def max_duration_def)

lemma process_audio_body_success:
  assumes "from_file lib audio_bytes = Inr audio"
    and "process_audio_body lib audio_bytes = Inr (data, sr, dur)"
  shows "sr = 16000 \<and> dur = real (len_ms audio) / 1000 \<and> 0.5 \<le> dur \<and> dur \<le> 300"
  using assms(2) unfolding process_audio_decoded [OF assms(1)] Let_def
  by (auto simp: min_duration_def max_duration_def target_sample_rate_def
      split: if_splits sum.splits)

lemma process_audio_success:
  "process_audio lib audio_bytes = Inr r \<longleftrightarrow> process_audio_body lib audio_bytes = Inr r"
  by (simp add: process_audio_def split: sum.splits)

lemma process_audio_failure:
  "process_audio lib audio_bytes = Inl e \<longleftrightarrow>
     (\<exists>e0. process_audio_body lib audio_bytes = Inl e0
        \<and> e = Exn ''ValueError'' (''Failed to process audio file: '' @ exc_msg e0))"
  by (auto simp add: process_audio_def split: sum.splits)

lemma example_decode_short:
  "from_file example_pydub ''abcd''
     = Inr \<lparr>len_ms = 400, channels = 2, frame_rate = 8000, array_of_samples = [97, 98, 99, 100]\<rparr>"
  by (simp add: example_pydub_def)

lemma example_decode_fail:
  "from_file example_pydub [] = Inl (Exn ''CouldntDecodeError'' ''Decoding failed'')"
  by (simp add: example_pydub_def)

lemma example_decode_long:
  "from_file example_pydub (replicate 3001 CHR ''d'')
     = Inr \<lparr>len_ms = 300100, channels = 2, frame_rate = 8000,
            array_of_samples = replicate 3001 100\<rparr>"
  by (simp add: example_pydub_def)

lemma example_decode_valid:
  "from_file example_pydub ''dddddd''
     = Inr \<lparr>len_ms = 600, channels = 2, frame_rate = 8000,
            array_of_samples = [100, 100, 100, 100, 100, 100]\<rparr>"
  by (simp add: example_pydub_def)

lemma example_process_valid:
  "process_audio example_pydub ''dddddd'' = Inr ([0, 0, 0, 0, 0, 0], 16000, 0.6)"
  by (simp add: process_audio_def process_audio_body_def example_pydub_def min_duration_def
      max_duration_def target_sample_rate_def apply_preemphasis_def Let_def)

text \<open>
  C5, as the code has it. When the decoded duration is below 0.5 seconds,
  \<open>process_audio\<close> fails, returning no clip, with the \<open>ValueError\<close> of message
  \<open>Failed to process audio file: Audio too short: <duration>s (minimum: 0.5s)\<close>; when it
  is above 300 seconds, with the \<open>ValueError\<close> of message
  \<open>Failed to process audio file: Audio too long: <duration>s (maximum: 300s)\<close>. Every clip
  it returns has the sample rate 16000 and a duration between 0.5 and 300 seconds.
\<close>

theorem duration_limits_enforced:
  assumes "from_file lib audio_bytes = Inr audio"
  shows "(real (len_ms audio) / 1000 < 0.5
          \<longrightarrow> process_audio lib audio_bytes
              = Inl (Exn ''ValueError''
                  (''Failed to process audio file: Audio too short: ''
                     @ fmt_2f lib (real (len_ms audio) / 1000) @ ''s (minimum: 0.5s)'')))
       \<and> (300 < real (len_ms audio) / 1000
          \<longrightarrow> process_audio lib audio_bytes
              = Inl (Exn ''ValueError''
                  (''Failed to process audio file: Audio too long: ''
                     @ fmt_2f lib (real (len_ms audio) / 1000) @ ''s (maximum: 300s)'')))
       \<and> (\<forall>data sr dur. process_audio lib audio_bytes = Inr (data, sr, dur)
            \<longrightarrow> sr = 16000 \<and> dur = real (len_ms audio) / 1000 \<and> 0.5 \<le> dur \<and> dur \<le> 300)"
proof (intro conjI impI allI)
  assume "real (len_ms audio) / 1000 < 0.5"
  with assms show "process_audio lib audio_bytes
              = Inl (Exn ''ValueError''
                  (''Failed to process audio file: Audio too short: ''
                     @ fmt_2f lib (real (len_ms audio) / 1000) @ ''s (minimum: 0.5s)''))"
    by (rule process_audio_too_short)
next
  assume "300 < real (len_ms audio) / 1000"
  with assms show "process_audio lib audio_bytes
              = Inl (Exn ''ValueError''
                  (''Failed to process audio file: Audio too long: ''
                     @ fmt_2f lib (real (len_ms audio) / 1000) @ ''s (maximum: 300s)''))"
    by (rule process_audio_too_long)
next
  fix data sr dur
  assume "process_audio lib audio_bytes = Inr (data, sr, dur)"
  then have "process_audio_body lib audio_bytes = Inr (data, sr, dur)"
    by (simp add: process_audio_success)
  with assms have r: "sr = 16000 \<and> dur = real (len_ms audio) / 1000 \<and> 0.5 \<le> dur \<and> dur \<le> 300"
    by (rule process_audio_body_success)
  then show "sr = 16000" "dur = real (len_ms audio) / 1000" "0.5 \<le> dur" "dur \<le> 300"
    by simp_all
qed

theorem duration_limits_enforced_witness:
  "from_file example_pydub ''abcd''
     = Inr \<lparr>len_ms = 400, channels = 2, frame_rate = 8000, array_of_samples = [97, 98, 99, 100]\<rparr>
   \<and> real 400 / 1000 < 0.5
   \<and> process_audio example_pydub ''abcd''
       = Inl (Exn ''ValueError''
           ''Failed to process audio file: Audio too short: 0.40s (minimum: 0.5s)'')
   \<and> from_file example_pydub (replicate 3001 CHR ''d'')
       = Inr \<lparr>len_ms = 300100, channels = 2, frame_rate = 8000,
              array_of_samples = replicate 3001 100\<rparr>
   \<and> 300 < real 300100 / 1000
   \<and> process_audio example_pydub (replicate 3001 CHR ''d'')
       = Inl (Exn ''ValueError''
           ''Failed to process audio file: Audio too long: 300.10s (maximum: 300s)'')
   \<and> from_file example_pydub ''dddddd''
       = Inr \<lparr>len_ms = 600, channels = 2, frame_rate = 8000,
              array_of_samples = [100, 100, 100, 100, 100, 100]\<rparr>
   \<and> process_audio example_pydub ''dddddd'' = Inr ([0, 0, 0, 0, 0, 0], 16000, 0.6)
   \<and> 0.5 \<le> (0.6::real) \<and> (0.6::real) \<le> 300"
proof -
  have short: "real 400 / 1000 < 0.5" by simp
  have long: "300 < real 300100 / 1000" by simp
  have f4: "fmt_2f example_pydub (real 400 / 1000) = ''0.40''"
    by (simp add: example_pydub_def)
  have f3: "fmt_2f example_pydub (real 300100 / 1000) = ''300.10''"
    by (simp add: example_pydub_def)
  from duration_limits_enforced [OF example_decode_short, THEN conjunct1] short f4
  have 1: "process_audio example_pydub ''abcd''
       = Inl (Exn ''ValueError''
           ''Failed to process audio file: Audio too short: 0.40s (minimum: 0.5s)'')"
    by simp
  from duration_limits_enforced [OF example_decode_long, THEN conjunct2, THEN conjunct1] long f3
  have 2: "process_audio example_pydub (replicate 3001 CHR ''d'')
       = Inl (Exn ''ValueError''
           ''Failed to process audio file: Audio too long: 300.10s (maximum: 300s)'')"
    by simp
  from duration_limits_enforced [OF example_decode_valid, THEN conjunct2, THEN conjunct2,
      rule_format, OF example_process_valid]
  have 3: "0.5 \<le> (0.6::real) \<and> (0.6::real) \<le> 300"
    by simp
  from example_decode_short short 1 example_decode_long long 2 example_decode_valid
    example_process_valid 3
  show ?thesis by (intro conjI) simp_all
qed

text \<open>
  The claim C5 as written has the failure be a \<open>DurationError\<close>. A clip of 0.4 seconds
  is rejected with a \<open>ValueError\<close>; the code has no other exception class.
\<close>

theorem duration_error_counterexample:
  "from_file example_pydub ''abcd''
     = Inr \<lparr>len_ms = 400, channels = 2, frame_rate = 8000, array_of_samples = [97, 98, 99, 100]\<rparr>
   \<and> process_audio example_pydub ''abcd''
       = Inl (Exn ''ValueError''
           ''Failed to process audio file: Audio too short: 0.40s (minimum: 0.5s)'')
   \<and> exc_type (Exn ''ValueError''
           ''Failed to process audio file: Audio too short: 0.40s (minimum: 0.5s)'')
       \<noteq> ''DurationError''"
  by (simp add: process_audio_def process_audio_body_def example_pydub_def min_duration_def)

text \<open>
  C10. Whenever \<open>process_audio\<close> fails, the exception is a \<open>ValueError\<close> whose message
  starts \<open>Failed to process audio file:\<close>. A failure of the decoder is raised again in
  that form around the decoder's message. The rejection of a clip that is too short or
  too long is a \<open>ValueError\<close> raised inside the \<open>try\<close> block, caught by the handler and
  raised again in the same form: the two failures have the same exception class.
\<close>

theorem failures_are_value_errors:
  "(\<forall>e. process_audio lib audio_bytes = Inl e
        \<longrightarrow> exc_type e = ''ValueError''
          \<and> prefix ''Failed to process audio file: '' (exc_msg e))
   \<and> (\<forall>e0. from_file lib audio_bytes = Inl e0
        \<longrightarrow> process_audio lib audio_bytes
            = Inl (Exn ''ValueError'' (''Failed to process audio file: '' @ exc_msg e0)))
   \<and> (\<forall>audio. from_file lib audio_bytes = Inr audio
          \<and> (real (len_ms audio) / 1000 < 0.5 \<or> 300 < real (len_ms audio) / 1000)
        \<longrightarrow> (\<exists>inner. process_audio_body lib audio_bytes = Inl inner
               \<and> exc_type inner = ''ValueError''
               \<and> process_audio lib audio_bytes
                   = Inl (Exn ''ValueError''
                       (''Failed to process audio file: '' @ exc_msg inner))))"
proof (intro conjI allI impI)
  fix e assume "process_audio lib audio_bytes = Inl e"
  then obtain e0 where "e = Exn ''ValueError'' (''Failed to process audio file: '' @ exc_msg e0)"
    unfolding process_audio_failure by blast
  then show "exc_type e = ''ValueError''" "prefix ''Failed to process audio file: '' (exc_msg e)"
    by simp_all
next
  fix e0 assume "from_file lib audio_bytes = Inl e0"
  then show "process_audio lib audio_bytes
            = Inl (Exn ''ValueError'' (''Failed to process audio file: '' @ exc_msg e0))"
    by (simp add: process_audio_def process_audio_body_def)
next
  fix audio
  assume a: "from_file lib audio_bytes = Inr audio
          \<and> (real (len_ms audio) / 1000 < 0.5 \<or> 300 < real (len_ms audio) / 1000)"
  then consider "real (len_ms audio) / 1000 < 0.5" | "300 < real (len_ms audio) / 1000"
    by blast
  then obtain msg where "process_audio_body lib audio_bytes = Inl (Exn ''ValueError'' msg)"
  proof cases
    case 1
    with a process_audio_body_too_short [of lib audio_bytes audio] that show ?thesis by blast
  next
    case 2
    with a process_audio_body_too_long [of lib audio_bytes audio] that show ?thesis by blast
  qed
  then have "process_audio_body lib audio_bytes = Inl (Exn ''ValueError'' msg)
      \<and> exc_type (Exn ''ValueError'' msg) = ''ValueError''
      \<and> process_audio lib audio_bytes
          = Inl (Exn ''ValueError''
              (''Failed to process audio file: '' @ exc_msg (Exn ''ValueError'' msg)))"
    by (simp add: process_audio_def)
  then show "\<exists>inner. process_audio_body lib audio_bytes = Inl inner
               \<and> exc_type inner = ''ValueError''
               \<and> process_audio lib audio_bytes
                   = Inl (Exn ''ValueError''
                       (''Failed to process audio file: '' @ exc_msg inner))"
    by (rule exI)
qed

theorem failures_are_value_errors_witness:
  "from_file example_pydub [] = Inl (Exn ''CouldntDecodeError'' ''Decoding failed'')
   \<and> process_audio example_pydub []
       = Inl (Exn ''ValueError'' ''Failed to process audio file: Decoding failed'')
   \<and> from_file example_pydub ''abcd''
     = Inr \<lparr>len_ms = 400, channels = 2, frame_rate = 8000, array_of_samples = [97, 98, 99, 100]\<rparr>
   \<and> real 400 / 1000 < 0.5
   \<and> (\<exists>inner. process_audio_body example_pydub ''abcd'' = Inl inner
          \<and> exc_type inner = ''ValueError''
          \<and> process_audio example_pydub ''abcd''
              = Inl (Exn ''ValueError'' (''Failed to process audio file: '' @ exc_msg inner)))"
proof -
  note t1 = failures_are_value_errors [of example_pydub "[]"]
  note t2 = failures_are_value_errors [of example_pydub "''abcd''"]
  from t1 [THEN conjunct2, THEN conjunct1, rule_format, OF example_decode_fail]
  have 1: "process_audio example_pydub []
       = Inl (Exn ''ValueError'' ''Failed to process audio file: Decoding failed'')"
    by simp
  have short: "real 400 / 1000 < 0.5" by simp
  have pre: "from_file example_pydub ''abcd''
     = Inr \<lparr>len_ms = 400, channels = 2, frame_rate = 8000, array_of_samples = [97, 98, 99, 100]\<rparr>
     \<and> (real (len_ms \<lparr>len_ms = 400, channels = 2, frame_rate = 8000,
            array_of_samples = [97, 98, 99, 100]\<rparr>) / 1000 < 0.5
        \<or> 300 < real (len_ms \<lparr>len_ms = 400, channels = 2, frame_rate = 8000,
            array_of_samples = [97, 98, 99, 100]\<rparr>) / 1000)"
    using example_decode_short by simp
  from t2 [THEN conjunct2, THEN conjunct2, rule_format, OF pre]
  have 2: "\<exists>inner. process_audio_body example_pydub ''abcd'' = Inl inner
          \<and> exc_type inner = ''ValueError''
          \<and> process_audio example_pydub ''abcd''
              = Inl (Exn ''ValueError'' (''Failed to process audio file: '' @ exc_msg inner))" .
  from example_decode_fail 1 example_decode_short short 2 show ?thesis
    by (intro conjI)
qed

section \<open>Properties of \<open>zcr_std\<close>\<close>

text \<open>The frames of the loop: those that start at a multiple of 512 below \<open>n - 1024\<close>.\<close>

lemma filter_upt_none:
  assumes "\<And>k. k0 \<le> k \<Longrightarrow> \<not> P k"
  shows "filter P [k0..<m] = []"
  using assms by (auto simp: filter_empty_conv)

lemma py_range_hops:
  assumes "\<not> int (512 * m) < stop"
  shows "py_range (int (512 * k0)) stop 512
           = map (\<lambda>k. int (512 * k)) (filter (\<lambda>k. int (512 * k) < stop) [k0..<m])"
  using assms
proof (induction "m - k0" arbitrary: k0)
  case 0
  then have "m \<le> k0" by simp
  then have "\<not> int (512 * k0) < stop" using "0.prems" by auto
  then show ?case using \<open>m \<le> k0\<close> by (simp add: py_range.simps)
next
  case (Suc d)
  then have lt: "k0 < m" by simp
  have d: "d = m - Suc k0" using Suc.hyps(2) by simp
  show ?case
  proof (cases "int (512 * k0) < stop")
    case True
    have "py_range (int (512 * k0)) stop 512
            = int (512 * k0) # py_range (int (512 * Suc k0)) stop 512"
      using True by (subst py_range.simps) (simp add: algebra_simps)
    also have "py_range (int (512 * Suc k0)) stop 512
            = map (\<lambda>k. int (512 * k)) (filter (\<lambda>k. int (512 * k) < stop) [Suc k0..<m])"
      using d Suc.prems by (rule Suc.hyps(1))
    finally show ?thesis using True lt by (simp add: upt_conv_Cons)
  next
    case False
    then have "\<And>k. k0 \<le> k \<Longrightarrow> \<not> int (512 * k) < stop"
      by (smt (verit) mult_le_mono2 of_nat_le_iff)
    then have "filter (\<lambda>k. int (512 * k) < stop) [k0..<m] = []"
      by (rule filter_upt_none)
    then show ?thesis using False by (simp add: py_range.simps)
  qed
qed

lemma code_frame_starts:
  "map nat (py_range 0 (int n - 1024) 512)
     = map (\<lambda>k. 512 * k) (filter (\<lambda>k. 512 * k + 1024 < n) [0..<n])"
proof -
  have "\<not> int (512 * n) < int n - 1024" by simp
  from py_range_hops [OF this, of 0]
  have "py_range 0 (int n - 1024) 512
          = map (\<lambda>k. int (512 * k)) (filter (\<lambda>k. int (512 * k) < int n - 1024) [0..<n])"
    by simp
  moreover have "(\<lambda>k. int (512 * k) < int n - 1024) = (\<lambda>k. 512 * k + 1024 < n)"
    by (rule ext) linarith
  moreover have "nat (512 * int k) = 512 * k" for k
    by (simp add: nat_mult_distrib)
  ultimately show ?thesis by (simp add: comp_def)
qed

lemma calculate_zcr_std_frames:
  "calculate_zcr_std xs =
     (let frames = map (\<lambda>k. take 1024 (drop (512 * k) xs))
                     (filter (\<lambda>k. 512 * k + 1024 < length xs) [0..<length xs])
      in if frames = [] then Some 0
         else case those (map calculate_zero_crossing_rate frames) of
                None \<Rightarrow> None
              | Some vs \<Rightarrow> np_std vs)"
proof -
  have "map (\<lambda>i. calculate_zero_crossing_rate (take 1024 (drop (nat i) xs)))
          (py_range 0 (int (length xs) - int 1024) 512)
        = map (\<lambda>j. calculate_zero_crossing_rate (take 1024 (drop j xs)))
            (map nat (py_range 0 (int (length xs) - 1024) 512))"
    by (simp add: comp_def)
  also have "\<dots> = map calculate_zero_crossing_rate
        (map (\<lambda>k. take 1024 (drop (512 * k) xs))
           (filter (\<lambda>k. 512 * k + 1024 < length xs) [0..<length xs]))"
    unfolding code_frame_starts by (simp add: comp_def)
  finally show ?thesis
    unfolding calculate_zcr_std_def Let_def by simp
qed

lemma full_frames_strict:
  assumes "length xs < 1024 \<or> \<not> 512 dvd (length xs - 1024)"
  shows "filter (\<lambda>k. 512 * k + 1024 < length xs) [0..<length xs]
           = filter (\<lambda>k. 512 * k + 1024 \<le> length xs) [0..<length xs]"
proof (rule filter_cong [OF refl])
  fix k
  have "512 * k + 1024 \<noteq> length xs"
  proof
    assume e: "512 * k + 1024 = length xs"
    then have "length xs - 1024 = 512 * k" by simp
    then have "512 dvd (length xs - 1024)" by simp
    with assms e show False by simp
  qed
  then show "(512 * k + 1024 < length xs) = (512 * k + 1024 \<le> length xs)"
    by linarith
qed


lemma those_map_Some:
  assumes "\<And>y. y \<in> set ys \<Longrightarrow> f y \<noteq> None"
  shows "those (map f ys) = Some (map (\<lambda>y. the (f y)) ys)"
  using assms
proof (induction ys)
  case Nil
  then show ?case by simp
next
  case (Cons a ys)
  then obtain v where "f a = Some v" by fastforce
  moreover have "those (map f ys) = Some (map (\<lambda>y. the (f y)) ys)"
    using Cons by simp
  ultimately show ?case by simp
qed

lemma np_std_Some:
  assumes "ys \<noteq> []"
  shows "\<exists>v. np_std ys = Some v \<and> 0 \<le> v"
proof -
  have "0 \<le> sum_list (map (\<lambda>y. (y - m)\<^sup>2) ys)" for m :: real
    by (rule sum_list_nonneg) auto
  then show ?thesis using assms by (simp add: np_std_def np_mean_def)
qed

lemma calculate_zcr_std_total: "\<exists>v. calculate_zcr_std xs = Some v \<and> 0 \<le> v"
proof -
  define starts where "starts = filter (\<lambda>k. 512 * k + 1024 < length xs) [0..<length xs]"
  define frames where "frames = map (\<lambda>k. take 1024 (drop (512 * k) xs)) starts"
  have ne: "calculate_zero_crossing_rate fr \<noteq> None" if "fr \<in> set frames" for fr
  proof -
    from that obtain k where "512 * k + 1024 < length xs" "fr = take 1024 (drop (512 * k) xs)"
      by (auto simp: frames_def starts_def)
    then have "length fr = 1024" by simp
    then show ?thesis by (simp add: calculate_zero_crossing_rate_def Let_def)
  qed
  show ?thesis
  proof (cases "frames = []")
    case True
    then show ?thesis
      unfolding calculate_zcr_std_frames Let_def frames_def starts_def by simp
  next
    case False
    have t: "those (map calculate_zero_crossing_rate frames)
               = Some (map (\<lambda>y. the (calculate_zero_crossing_rate y)) frames)"
      using ne by (rule those_map_Some)
    have "map (\<lambda>y. the (calculate_zero_crossing_rate y)) frames \<noteq> []"
      using False by simp
    from np_std_Some [OF this] False t show ?thesis
      unfolding calculate_zcr_std_frames Let_def frames_def [symmetric, unfolded starts_def [symmetric]]
        starts_def [symmetric] frames_def [symmetric]
      by simp
  qed
qed


text \<open>The rate of the code on a frame without a zero sample.\<close>

lemma crossings_are_sign_changes:
  assumes "0 \<notin> set fr"
  shows "sum_list (map abs (np_diff (map sgn fr))) / 2 = real (sign_changes fr)"
  using assms
proof (induction fr rule: sign_changes.induct)
  case (1 x y zs)
  then have xy: "x \<noteq> 0" "y \<noteq> 0" and rest: "0 \<notin> set (y # zs)"
    by auto
  have step: "\<bar>sgn y - sgn x\<bar> / 2 = (if x * y < 0 then 1 else 0)"
    using xy by (auto simp: sgn_real_def mult_less_0_iff)
  have "sum_list (map abs (np_diff (map sgn (x # y # zs)))) / 2
          = \<bar>sgn y - sgn x\<bar> / 2 + sum_list (map abs (np_diff (map sgn (y # zs)))) / 2"
    by (simp add: add_divide_distrib)
  also have "\<dots> = (if x * y < 0 then 1 else 0) + real (sign_changes (y # zs))"
    using step "1.IH" [OF rest] by simp
  finally show ?case by simp
qed simp_all

lemma rate_is_sign_change_rate:
  assumes "fr \<noteq> []" "0 \<notin> set fr"
  shows "calculate_zero_crossing_rate fr = Some (sign_change_rate fr)"
  using assms
  by (simp add: calculate_zero_crossing_rate_def sign_change_rate_def
      crossings_are_sign_changes Let_def)

lemma np_std_is_standard_deviation:
  assumes "ys \<noteq> []"
  shows "np_std ys = Some (standard_deviation ys)"
  using assms by (simp add: np_std_def np_mean_def standard_deviation_def Let_def)

lemma full_frame_props:
  assumes "fr \<in> set (full_frames xs)"
  shows "length fr = 1024" "set fr \<subseteq> set xs"
proof -
  from assms obtain k where k: "512 * k + 1024 \<le> length xs" "fr = take 1024 (drop (512 * k) xs)"
    by (auto simp: full_frames_def)
  then show "length fr = 1024" by simp
  show "set fr \<subseteq> set xs"
    unfolding k(2) using set_take_subset set_drop_subset by (rule subset_trans)
qed

lemma rates_of_full_frames:
  "those (map calculate_zero_crossing_rate (full_frames xs))
     = Some (map (\<lambda>fr. the (calculate_zero_crossing_rate fr)) (full_frames xs))"
proof (rule those_map_Some)
  fix fr assume "fr \<in> set (full_frames xs)"
  then have "length fr = 1024" by (rule full_frame_props)
  then show "calculate_zero_crossing_rate fr \<noteq> None"
    by (simp add: calculate_zero_crossing_rate_def Let_def)
qed

lemma rates_of_full_frames_no_zero:
  assumes "0 \<notin> set xs"
  shows "map (\<lambda>fr. the (calculate_zero_crossing_rate fr)) (full_frames xs)
           = map sign_change_rate (full_frames xs)"
proof (rule map_cong [OF refl])
  fix fr assume fr: "fr \<in> set (full_frames xs)"
  then have "length fr = 1024" "set fr \<subseteq> set xs" by (rule full_frame_props)+
  with assms have "fr \<noteq> []" "0 \<notin> set fr" by auto
  then show "the (calculate_zero_crossing_rate fr) = sign_change_rate fr"
    by (simp add: rate_is_sign_change_rate)
qed

lemma calculate_zcr_std_full_frames:
  assumes "length xs < 1024 \<or> \<not> 512 dvd (length xs - 1024)"
  shows "calculate_zcr_std xs =
     (if full_frames xs = [] then Some 0
      else map_option standard_deviation
             (those (map calculate_zero_crossing_rate (full_frames xs))))"
proof -
  have "calculate_zcr_std xs =
     (if full_frames xs = [] then Some 0
      else case those (map calculate_zero_crossing_rate (full_frames xs)) of
             None \<Rightarrow> None | Some vs \<Rightarrow> np_std vs)"
    unfolding calculate_zcr_std_frames full_frames_def Let_def
    by (simp only: full_frames_strict [OF assms])
  then show ?thesis
    by (simp add: rates_of_full_frames np_std_is_standard_deviation)
qed

text \<open>Evaluation on signals of constant sign and on signals that change sign once.\<close>

lemma np_diff_replicate: "np_diff (replicate n x) = replicate (n - 1) 0"
proof (induction n)
  case 0
  then show ?case by simp
next
  case (Suc n)
  then show ?case by (cases n) simp_all
qed

lemma np_diff_Cons_replicate:
  "0 < b \<Longrightarrow> np_diff (x # replicate b y) = (y - x) # replicate (b - 1) 0"
  using np_diff_replicate [of b y] by (cases b) simp_all

lemma np_diff_step:
  assumes "0 < a" "0 < b"
  shows "np_diff (replicate a x @ replicate b y)
           = replicate (a - 1) 0 @ [y - x] @ replicate (b - 1) 0"
  using assms(1)
proof (induction a)
  case 0
  then show ?case by simp
next
  case (Suc a)
  show ?case
  proof (cases a)
    case 0
    then show ?thesis using np_diff_Cons_replicate [OF assms(2)] by simp
  next
    case (Suc a')
    then have "np_diff (replicate (Suc a) x @ replicate b y)
                 = 0 # np_diff (replicate a x @ replicate b y)"
      by simp
    then show ?thesis using Suc.IH Suc by simp
  qed
qed

lemma filter_less_upt:
  assumes "c \<le> n"
  shows "filter (\<lambda>k. k < c) [0..<n] = [0..<c]"
proof -
  have "[0..<n] = [0..<c] @ [c..<n]"
    using assms by (metis le_add_diff_inverse upt_add_eq_append zero_le)
  then show ?thesis by (simp add: filter_empty_conv)
qed

lemma upt_0_2: "[0..<2] = [0, 1::nat]"
  by (simp add: numeral_2_eq_2)


lemma zcr_flat: "0 < n \<Longrightarrow> calculate_zero_crossing_rate (replicate n x) = Some 0"
  by (simp add: calculate_zero_crossing_rate_def np_diff_replicate sum_list_replicate)

lemma zcr_flip:
  assumes "0 < a" "0 < b"
  shows "calculate_zero_crossing_rate (replicate a 1 @ replicate b (- 1))
           = Some (1 / real (a + b))"
  using assms by (simp add: calculate_zero_crossing_rate_def np_diff_step sum_list_replicate)

lemma np_std_single: "np_std [0] = Some 0"
  by (simp add: np_std_def np_mean_def)

lemma np_std_pair: "np_std [0, 1 / 1024] = Some (1 / 2048)"
proof -
  have "sqrt (1 / 4194304) = 1 / 2048"
    by (rule real_sqrt_unique) (simp_all add: power2_eq_square)
  then show ?thesis
    by (simp add: np_std_def np_mean_def power2_eq_square)
qed

lemma starts_1025:
  "filter (\<lambda>k. 512 * k + 1024 < (1025::nat)) [0..<1025] = [0]"
proof -
  have "(\<lambda>k::nat. 512 * k + 1024 < 1025) = (\<lambda>k. k < 1)"
    by (rule ext) arith
  moreover have "filter (\<lambda>k. k < 1) [0..<1025] = [0..<1]"
    by (rule filter_less_upt) simp
  moreover have "[0..<1] = [0::nat]" by simp
  ultimately show ?thesis by (simp only:)
qed

lemma zcr_std_1025: "calculate_zcr_std (replicate 1025 1) = Some 0"
proof -
  have f0: "take 1024 (drop (512 * 0) (replicate 1025 (1::real))) = replicate 1024 1"
    by simp
  have z0: "calculate_zero_crossing_rate (replicate 1024 1) = Some 0"
    by (rule zcr_flat) simp
  have len: "length (replicate 1025 (1::real)) = 1025" by simp
  have fr: "map (\<lambda>k. take 1024 (drop (512 * k) (replicate 1025 (1::real)))) [0]
              = [replicate 1024 1]"
    using f0 by (simp only: list.map)
  have th: "those (map calculate_zero_crossing_rate [replicate 1024 1]) = Some [0]"
    by (simp only: list.map z0 those.simps option.case option.map)
  show ?thesis
    unfolding calculate_zcr_std_frames len starts_1025 Let_def fr th
    by (simp only: option.case np_std_single list.distinct if_False)
qed

lemma starts_1537:
  "filter (\<lambda>k. 512 * k + 1024 < (1537::nat)) [0..<1537] = [0, 1]"
proof -
  have "(\<lambda>k::nat. 512 * k + 1024 < 1537) = (\<lambda>k. k < 2)"
    by (rule ext) arith
  moreover have "filter (\<lambda>k. k < 2) [0..<1537] = [0..<2]"
    by (rule filter_less_upt) simp
  ultimately show ?thesis by (simp only: upt_0_2)
qed

lemma starts_1536_code:
  "filter (\<lambda>k. 512 * k + 1024 < (1536::nat)) [0..<1536] = [0]"
proof -
  have "(\<lambda>k::nat. 512 * k + 1024 < 1536) = (\<lambda>k. k < 1)"
    by (rule ext) arith
  moreover have "filter (\<lambda>k. k < 1) [0..<1536] = [0..<1]"
    by (rule filter_less_upt) simp
  moreover have "[0..<1] = [0::nat]" by simp
  ultimately show ?thesis by (simp only:)
qed

lemma starts_1536_full:
  "filter (\<lambda>k. 512 * k + 1024 \<le> (1536::nat)) [0..<1536] = [0, 1]"
proof -
  have "(\<lambda>k::nat. 512 * k + 1024 \<le> 1536) = (\<lambda>k. k < 2)"
    by (rule ext) arith
  moreover have "filter (\<lambda>k. k < 2) [0..<1536] = [0..<2]"
    by (rule filter_less_upt) simp
  ultimately show ?thesis by (simp only: upt_0_2)
qed


lemma flip_frames_1537:
  "map (\<lambda>k. take 1024 (drop (512 * k) example_flip_1537)) [0, 1]
     = [replicate 1024 1, replicate 512 1 @ replicate 512 (- 1)]"
  by (simp add: example_flip_1537_def)

lemma flip_frames_1536:
  "map (\<lambda>k. take 1024 (drop (512 * k) example_flip_1536)) [0, 1]
     = [replicate 1024 1, replicate 512 1 @ replicate 512 (- 1)]"
  by (simp add: example_flip_1536_def)

lemma flip_rates:
  "those (map calculate_zero_crossing_rate
      [replicate 1024 1, replicate 512 1 @ replicate 512 (- 1)]) = Some [0, 1 / 1024]"
proof -
  have z0: "calculate_zero_crossing_rate (replicate 1024 1) = Some 0"
    by (rule zcr_flat) simp
  have z1: "calculate_zero_crossing_rate (replicate 512 1 @ replicate 512 (- 1))
              = Some (1 / 1024)"
    using zcr_flip [of 512 512] by simp
  show ?thesis
    by (simp only: list.map z0 z1 those.simps option.case option.map)
qed

lemma zcr_std_1537: "calculate_zcr_std example_flip_1537 = Some (1 / 2048)"
proof -
  have len: "length example_flip_1537 = 1537" by (simp add: example_flip_1537_def)
  show ?thesis
    unfolding calculate_zcr_std_frames len starts_1537 Let_def flip_frames_1537 flip_rates
    by (simp only: option.case np_std_pair list.distinct if_False)
qed

lemma zcr_std_1536_code: "calculate_zcr_std example_flip_1536 = Some 0"
proof -
  have f0: "map (\<lambda>k. take 1024 (drop (512 * k) example_flip_1536)) [0] = [replicate 1024 1]"
    by (simp add: example_flip_1536_def)
  have z0: "calculate_zero_crossing_rate (replicate 1024 1) = Some 0"
    by (rule zcr_flat) simp
  have th: "those (map calculate_zero_crossing_rate [replicate 1024 1]) = Some [0]"
    by (simp only: list.map z0 those.simps option.case option.map)
  have len: "length example_flip_1536 = 1536" by (simp add: example_flip_1536_def)
  show ?thesis
    unfolding calculate_zcr_std_frames len starts_1536_code Let_def f0 th
    by (simp only: option.case np_std_single list.distinct if_False)
qed

lemma flip_1536_no_zero: "0 \<notin> set example_flip_1536"
  by (simp add: example_flip_1536_def)

lemma zcr_std_1536_full: "zcr_std_of_full_frames example_flip_1536 = 1 / 2048"
proof -
  have len: "length example_flip_1536 = 1536" by (simp add: example_flip_1536_def)
  have ff: "full_frames example_flip_1536
              = [replicate 1024 1, replicate 512 1 @ replicate 512 (- 1)]"
    unfolding full_frames_def len starts_1536_full by (rule flip_frames_1536)
  have "Some (map sign_change_rate (full_frames example_flip_1536))
          = those (map calculate_zero_crossing_rate (full_frames example_flip_1536))"
    by (simp only: rates_of_full_frames rates_of_full_frames_no_zero [OF flip_1536_no_zero])
  also have "\<dots> = Some [0, 1 / 1024]"
    unfolding ff by (rule flip_rates)
  finally have rates: "map sign_change_rate (full_frames example_flip_1536) = [0, 1 / 1024]"
    by simp
  have sd: "standard_deviation [0, 1 / 1024] = 1 / 2048"
    using np_std_is_standard_deviation [of "[0, 1 / 1024]"] np_std_pair by simp
  have "full_frames example_flip_1536 \<noteq> []"
    unfolding ff by simp
  then show ?thesis
    unfolding zcr_std_of_full_frames_def rates sd by simp
qed

text \<open>
  C6, as the code has it. For every signal with fewer than 1024 samples, or whose
  length minus 1024 is not a multiple of 512, \<open>zcr_std\<close> is the standard deviation of
  the zero-crossing rates of all full frames of 1024 samples at hop 512, and 0.0 when
  there is no full frame. The rate of a frame is the value of
  \<open>_calculate_zero_crossing_rate\<close> on it; for a frame with no sample equal to zero that
  value is the count of sign changes divided by the sample count, so that for such a
  signal with no sample equal to zero \<open>zcr_std\<close> is the value of the specification.
  \<open>zcr_std\<close> is 0.0 whenever the signal has fewer than 1024 samples, and for every
  signal it is a number, not \<open>nan\<close>, and not negative.
\<close>

theorem zcr_std_over_full_frames:
  "(length xs < 1024 \<or> \<not> 512 dvd (length xs - 1024)
      \<longrightarrow> calculate_zcr_std xs =
            (if full_frames xs = [] then Some 0
             else map_option standard_deviation
                    (those (map calculate_zero_crossing_rate (full_frames xs)))))
   \<and> (fr \<noteq> [] \<and> 0 \<notin> set fr
      \<longrightarrow> calculate_zero_crossing_rate fr = Some (sign_change_rate fr))
   \<and> ((length xs < 1024 \<or> \<not> 512 dvd (length xs - 1024)) \<and> 0 \<notin> set xs
      \<longrightarrow> calculate_zcr_std xs = Some (zcr_std_of_full_frames xs))
   \<and> (length xs < 1024 \<longrightarrow> calculate_zcr_std xs = Some 0)
   \<and> (\<exists>v. calculate_zcr_std xs = Some v \<and> 0 \<le> v)"
proof (intro conjI impI)
  assume "length xs < 1024 \<or> \<not> 512 dvd (length xs - 1024)"
  then show "calculate_zcr_std xs =
            (if full_frames xs = [] then Some 0
             else map_option standard_deviation
                    (those (map calculate_zero_crossing_rate (full_frames xs))))"
    by (rule calculate_zcr_std_full_frames)
next
  assume "fr \<noteq> [] \<and> 0 \<notin> set fr"
  then show "calculate_zero_crossing_rate fr = Some (sign_change_rate fr)"
    by (simp add: rate_is_sign_change_rate)
next
  assume a: "(length xs < 1024 \<or> \<not> 512 dvd (length xs - 1024)) \<and> 0 \<notin> set xs"
  then have "calculate_zcr_std xs =
            (if full_frames xs = [] then Some 0
             else map_option standard_deviation
                    (those (map calculate_zero_crossing_rate (full_frames xs))))"
    by (intro calculate_zcr_std_full_frames) simp
  then show "calculate_zcr_std xs = Some (zcr_std_of_full_frames xs)"
    using a by (simp add: rates_of_full_frames rates_of_full_frames_no_zero
        zcr_std_of_full_frames_def)
next
  assume "length xs < 1024"
  then have "filter (\<lambda>k. 512 * k + 1024 < length xs) [0..<length xs] = []"
    by (auto simp: filter_empty_conv)
  then show "calculate_zcr_std xs = Some 0"
    unfolding calculate_zcr_std_frames Let_def by simp
next
  show "\<exists>v. calculate_zcr_std xs = Some v \<and> 0 \<le> v"
    by (rule calculate_zcr_std_total)
qed

theorem zcr_std_over_full_frames_witness:
  "\<not> 512 dvd (length example_flip_1537 - 1024)
   \<and> 0 \<notin> set example_flip_1537
   \<and> calculate_zcr_std example_flip_1537
       = (if full_frames example_flip_1537 = [] then Some 0
          else map_option standard_deviation
                 (those (map calculate_zero_crossing_rate (full_frames example_flip_1537))))
   \<and> calculate_zcr_std example_flip_1537 = Some (zcr_std_of_full_frames example_flip_1537)
   \<and> calculate_zcr_std example_flip_1537 = Some (1 / 2048)
   \<and> [1, - 1, 1] \<noteq> ([] :: real list)
   \<and> 0 \<notin> set [1, - 1, 1 :: real]
   \<and> calculate_zero_crossing_rate [1, - 1, 1] = Some (sign_change_rate [1, - 1, 1])
   \<and> sign_change_rate [1, - 1, 1] = 2 / 3
   \<and> length [1, - 1, 1 :: real] < 1024
   \<and> calculate_zcr_std [1, - 1, 1] = Some 0"
proof -
  note t = zcr_std_over_full_frames [of example_flip_1537 "[1, - 1, 1]"]
  note u = zcr_std_over_full_frames [of "[1, - 1, 1]" "[1, - 1, 1]"]
  have len: "length example_flip_1537 = 1537" by (simp add: example_flip_1537_def)
  have nd: "\<not> 512 dvd (length example_flip_1537 - 1024)"
    unfolding len by simp
  have nz: "0 \<notin> set example_flip_1537" by (simp add: example_flip_1537_def)
  have ne: "[1, - 1, 1] \<noteq> ([] :: real list)" by simp
  have nz3: "0 \<notin> set [1, - 1, 1 :: real]" by simp
  have short: "length [1, - 1, 1 :: real] < 1024" by simp
  from t [THEN conjunct1] nd
  have 1: "calculate_zcr_std example_flip_1537
       = (if full_frames example_flip_1537 = [] then Some 0
          else map_option standard_deviation
                 (those (map calculate_zero_crossing_rate (full_frames example_flip_1537))))"
    by blast
  from t [THEN conjunct2, THEN conjunct1] ne nz3
  have 2: "calculate_zero_crossing_rate [1, - 1, 1] = Some (sign_change_rate [1, - 1, 1])"
    by blast
  from t [THEN conjunct2, THEN conjunct2, THEN conjunct1] nd nz
  have 3: "calculate_zcr_std example_flip_1537 = Some (zcr_std_of_full_frames example_flip_1537)"
    by blast
  from u [THEN conjunct2, THEN conjunct2, THEN conjunct2, THEN conjunct1] short
  have 4: "calculate_zcr_std [1, - 1, 1] = Some 0"
    by blast
  have 5: "sign_change_rate [1, - 1, 1] = 2 / 3"
    by (simp add: sign_change_rate_def)
  from nd nz 1 3 zcr_std_1537 ne nz3 2 5 short 4 show ?thesis by (intro conjI)
qed

text \<open>
  The claim C6 as written has \<open>zcr_std\<close> equal 0.0 exactly when the signal has fewer than
  1024 samples. On a signal of 1025 samples, all equal to one, the loop takes one frame,
  the deviation of its one rate is 0.0, and the signal is not shorter than 1024.
\<close>

theorem zcr_std_zero_counterexample:
  "calculate_zcr_std (replicate 1025 1) = Some 0
   \<and> \<not> length (replicate 1025 (1::real)) < 1024"
  using zcr_std_1025 by simp

text \<open>
  Where the length minus 1024 is a multiple of 512 the loop stops one frame early: on
  the signal of 1536 samples that changes sign at sample 1024 it takes the frame at 0
  and not the full frame at 512.
\<close>

lemma zcr_std_skips_last_full_frame:
  "length example_flip_1536 = 1536
   \<and> 0 \<notin> set example_flip_1536
   \<and> calculate_zcr_std example_flip_1536 = Some 0
   \<and> zcr_std_of_full_frames example_flip_1536 = 1 / 2048"
  using zcr_std_1536_code zcr_std_1536_full by (simp add: example_flip_1536_def)

text \<open>
  A sample equal to zero has the sign 0: the code counts half a crossing on each side of
  it, where the specification counts no pair of opposite signs.
\<close>

lemma zero_sample_counts_half:
  "calculate_zero_crossing_rate [1, 0, 1] = Some (1 / 3)
   \<and> sign_change_rate [1, 0, 1] = 0"
  by (simp add: calculate_zero_crossing_rate_def sign_change_rate_def)

section \<open>Properties of \<open>spectral_flatness\<close>\<close>

text \<open>
  The inequality of the geometric and the arithmetic mean, from \<open>ln x \<le> x - 1\<close>.
\<close>

lemma sum_list_affine:
  "sum_list (map (\<lambda>y. c + y / A) ys) = real (length ys) * c + sum_list ys / (A::real)"
  by (induction ys) (simp_all add: algebra_simps add_divide_distrib)

lemma mean_log_le_log_mean:
  fixes ys :: "real list"
  assumes ne: "ys \<noteq> []" and pos: "\<And>y. y \<in> set ys \<Longrightarrow> 0 < y"
  shows "exp (sum_list (map ln ys) / real (length ys)) \<le> sum_list ys / real (length ys)"
proof -
  define n where "n = real (length ys)"
  define A where "A = sum_list ys / n"
  have n: "0 < n" using ne by (simp add: n_def)
  have S: "0 < sum_list ys"
    using ne pos by (induction ys) (auto intro: add_pos_nonneg sum_list_nonneg less_imp_le)
  have A: "0 < A" using S n by (simp add: A_def)
  have each: "ln y \<le> (ln A - 1) + y / A" if "y \<in> set ys" for y
  proof -
    have y: "0 < y" using that by (rule pos)
    then have "ln (y / A) \<le> y / A - 1"
      using A by (intro ln_le_minus_one) simp
    then show ?thesis using y A by (simp add: ln_div)
  qed
  have "sum_list (map ln ys) \<le> sum_list (map (\<lambda>y. (ln A - 1) + y / A) ys)"
    using each by (intro sum_list_mono) simp
  also have "\<dots> = n * (ln A - 1) + sum_list ys / A"
    by (simp add: sum_list_affine n_def)
  also have "sum_list ys / A = n"
    using S n by (simp add: A_def)
  finally have "sum_list (map ln ys) \<le> n * ln A"
    by (simp add: algebra_simps)
  then have "sum_list (map ln ys) / n \<le> ln A"
    using n by (simp add: divide_le_eq mult.commute)
  then have "exp (sum_list (map ln ys) / n) \<le> exp (ln A)"
    by (simp only: exp_le_cancel_iff)
  also have "exp (ln A) = A" using A by simp
  finally show ?thesis unfolding A_def n_def .
qed


lemma fft_nonempty:
  assumes "xs \<noteq> []"
  shows "\<exists>transformed. fft xs = Inr transformed \<and> length transformed = length xs"
  using assms by (simp add: fft_def Let_def)

lemma flatness_impulse: "calculate_spectral_flatness [1, 0] = Inr (Some 1)"
  by (simp add: calculate_spectral_flatness_def fft_def try_bind_def np_mean_def Let_def
      numeral_2_eq_2)

text \<open>
  C9, as the code has it. For every signal of at least two samples, \<open>spectral_flatness\<close>
  (the exponential of the mean logarithm of the positive-frequency magnitudes plus
  1e-10, over their mean plus 1e-10) is a number between 0 and 1. The bound is that of
  the exact arithmetic of the model; the floating-point value of the code meets it
  approximately, to within its rounding.
\<close>

theorem spectral_flatness_in_unit_interval:
  assumes "2 \<le> length audio_data"
  shows "\<exists>v. calculate_spectral_flatness audio_data = Inr (Some v) \<and> 0 \<le> v \<and> v \<le> 1"
proof -
  have "audio_data \<noteq> []" using assms by auto
  from fft_nonempty [OF this] obtain transformed where
    tr: "fft audio_data = Inr transformed" "length transformed = length audio_data"
    by blast
  define eps :: real where "eps = 1 / 10 ^ 10"
  define spectrum where
    "spectrum = take (length (map cmod transformed) div 2) (map cmod transformed)"
  define ys where "ys = map (\<lambda>s. s + eps) spectrum"
  have eps: "0 < eps" by (simp add: eps_def)
  have len: "length spectrum = length audio_data div 2"
    by (simp add: spectrum_def tr(2))
  then have ne: "spectrum \<noteq> []" using assms by auto
  have nonneg: "0 \<le> s" if "s \<in> set spectrum" for s
    using that by (auto simp: spectrum_def dest!: in_set_takeD)
  have ys_ne: "ys \<noteq> []" using ne by (simp add: ys_def)
  have ys_pos: "0 < y" if "y \<in> set ys" for y
    using that nonneg eps by (auto simp: ys_def intro: add_nonneg_pos)
  have n: "0 < real (length spectrum)" using ne by simp
  have mean_ys: "sum_list ys / real (length ys) = sum_list spectrum / real (length spectrum) + eps"
  proof -
    have "sum_list ys = sum_list spectrum + real (length spectrum) * eps"
      unfolding ys_def by (induction spectrum) (simp_all add: algebra_simps)
    then show ?thesis using n by (simp add: ys_def add_divide_distrib)
  qed
  have logs: "map ln ys = map (\<lambda>s. ln (s + eps)) spectrum"
    by (simp add: ys_def comp_def)
  define v where
    "v = exp (sum_list (map (\<lambda>s. ln (s + eps)) spectrum) / real (length spectrum))
           / (sum_list spectrum / real (length spectrum) + eps)"
  have m1: "np_mean (map (\<lambda>s. ln (s + eps)) spectrum)
              = Some (sum_list (map (\<lambda>s. ln (s + eps)) spectrum) / real (length spectrum))"
    using ne by (simp add: np_mean_def)
  have m2: "np_mean spectrum = Some (sum_list spectrum / real (length spectrum))"
    using ne by (simp add: np_mean_def)
  have "calculate_spectral_flatness audio_data =
      (let spectrum = map cmod transformed;
           spectrum = take (length spectrum div 2) spectrum
       in Inr (case np_mean (map (\<lambda>s. ln (s + eps)) spectrum) of
                 None \<Rightarrow> None
               | Some mean_log \<Rightarrow>
                   (let geometric_mean = exp mean_log
                    in case np_mean spectrum of
                         None \<Rightarrow> None
                       | Some arithmetic_mean \<Rightarrow>
                           Some (geometric_mean / (arithmetic_mean + eps)))))"
    unfolding calculate_spectral_flatness_def tr(1) try_bind_def eps_def by simp
  then have val: "calculate_spectral_flatness audio_data = Inr (Some v)"
    unfolding Let_def spectrum_def [symmetric] m1 m2 v_def by simp
  have den: "0 < sum_list spectrum / real (length spectrum) + eps"
    using ys_pos ys_ne mean_ys n eps nonneg
    by (intro add_nonneg_pos divide_nonneg_nonneg sum_list_nonneg) simp_all
  have "exp (sum_list (map ln ys) / real (length ys)) \<le> sum_list ys / real (length ys)"
    using ys_ne ys_pos by (rule mean_log_le_log_mean)
  then have "exp (sum_list (map (\<lambda>s. ln (s + eps)) spectrum) / real (length spectrum))
               \<le> sum_list spectrum / real (length spectrum) + eps"
    unfolding logs mean_ys by (simp add: ys_def)
  then have "v \<le> 1" using den by (simp add: v_def)
  moreover have "0 \<le> v" using den by (simp add: v_def)
  ultimately show ?thesis using val by blast
qed

theorem spectral_flatness_in_unit_interval_witness:
  "2 \<le> length [1, 0 :: real]
   \<and> (\<exists>v. calculate_spectral_flatness [1, 0] = Inr (Some v) \<and> 0 \<le> v \<and> v \<le> 1)
   \<and> calculate_spectral_flatness [1, 0] = Inr (Some 1)"
proof -
  have two: "2 \<le> length [1, 0 :: real]" by simp
  from two spectral_flatness_in_unit_interval [OF two] flatness_impulse
  show ?thesis by (intro conjI)
qed

text \<open>
  The claim C9 as written covers every non-empty signal. A signal of one sample has
  no positive-frequency bin: both means are taken over an empty array and the value is
  \<open>nan\<close>.
\<close>

theorem spectral_flatness_counterexample:
  "[1::real] \<noteq> [] \<and> calculate_spectral_flatness [1] = Inr None"
  by (simp add: calculate_spectral_flatness_def fft_def try_bind_def np_mean_def)

section \<open>Properties of the feature extractor\<close>

text \<open>The peaks that \<open>find_peaks\<close> reports lie inside the array, and a flat array has none.\<close>

lemma look_ahead_ge: "k \<le> look_ahead x v i_max k"
proof (induction x v i_max k rule: look_ahead.induct)
  case (1 x v i_max i_ahead)
  show ?case
  proof (cases "i_ahead < i_max \<and> x ! i_ahead = v")
    case True
    with "1.IH" have "Suc i_ahead \<le> look_ahead x v i_max (Suc i_ahead)" by simp
    with True show ?thesis by (subst look_ahead.simps) simp
  next
    case False
    then show ?thesis by (subst look_ahead.simps) auto
  qed
qed

lemma look_ahead_le: "k \<le> i_max \<Longrightarrow> look_ahead x v i_max k \<le> i_max"
proof (induction x v i_max k rule: look_ahead.induct)
  case (1 x v i_max i_ahead)
  show ?case
  proof (cases "i_ahead < i_max \<and> x ! i_ahead = v")
    case True
    with "1.IH" have "look_ahead x v i_max (Suc i_ahead) \<le> i_max" by simp
    with True show ?thesis by (subst look_ahead.simps) simp
  next
    case False
    then show ?thesis using "1.prems" by (subst look_ahead.simps) auto
  qed
qed

lemma local_maxima_in_range:
  assumes "p \<in> set (local_maxima_1d x)"
  shows "p + 1 < length x"
proof -
  from assms obtain i where i: "1 \<le> i" "i < length x - 1"
    and p: "p = (i + (look_ahead x (x ! i) (length x - 1) (i + 1) - 1)) div 2"
    by (auto simp: local_maxima_1d_def Let_def split: if_splits)
  define ia where "ia = look_ahead x (x ! i) (length x - 1) (i + 1)"
  have "i + 1 \<le> ia" unfolding ia_def by (rule look_ahead_ge)
  moreover have "ia \<le> length x - 1"
    unfolding ia_def using i(2) by (intro look_ahead_le) simp
  ultimately show ?thesis unfolding p ia_def [symmetric] by linarith
qed

lemma find_peaks_in_range:
  assumes "p \<in> set (find_peaks x h)"
  shows "p + 1 < length x"
  using local_maxima_in_range [of p x] assms by (simp add: find_peaks_def)

lemma local_maxima_flat: "local_maxima_1d (replicate n c) = []"
  by (auto simp: local_maxima_1d_def Let_def)

lemma find_peaks_flat: "find_peaks (replicate n c) h = []"
  by (simp add: find_peaks_def local_maxima_flat)

lemma correlate_length:
  assumes "xs \<noteq> []"
  shows "\<exists>ac. np_correlate_full xs xs = Inr ac \<and> length ac = 2 * length xs - 1"
  using assms by (simp add: np_correlate_full_def)

lemma np_max_nonempty: "xs \<noteq> [] \<Longrightarrow> \<exists>m. np_max xs = Inr m"
  by (cases xs) (simp_all add: np_max_def)

text \<open>
  On a signal of at least two samples, at a positive sample rate, no statement of the
  extractor raises and each of the first eleven features is a finite float.
\<close>

lemma half_spectrum_nonempty:
  assumes "2 \<le> length xs"
  shows "\<exists>transformed. fft xs = Inr transformed
           \<and> take (length (map cmod transformed) div 2) (map cmod transformed) \<noteq> []"
proof -
  have "xs \<noteq> []" using assms by auto
  from fft_nonempty [OF this] obtain transformed where
    tr: "fft xs = Inr transformed" "length transformed = length xs"
    by blast
  then have "take (length (map cmod transformed) div 2) (map cmod transformed) \<noteq> []"
    using assms by auto
  with tr(1) show ?thesis by blast
qed

lemma flatness_returns:
  assumes "2 \<le> length xs"
  shows "\<exists>v. calculate_spectral_flatness xs = Inr (Some v)"
proof -
  from half_spectrum_nonempty [OF assms] obtain transformed where
    tr: "fft xs = Inr transformed"
      "take (length (map cmod transformed) div 2) (map cmod transformed) \<noteq> []"
    by blast
  show ?thesis
    unfolding calculate_spectral_flatness_def tr(1) try_bind_def Let_def
    using tr(2) by (simp add: np_mean_def)
qed

lemma centroid_returns:
  "xs \<noteq> [] \<Longrightarrow> 0 < sr \<Longrightarrow> \<exists>v. calculate_spectral_centroid xs sr = Inr (Some v)"
  using fft_nonempty [of xs]
  by (auto simp: calculate_spectral_centroid_def try_bind_def Let_def)

lemma rolloff_returns:
  "xs \<noteq> [] \<Longrightarrow> \<exists>v. calculate_spectral_rolloff xs sr = Inr (Some v)"
  using fft_nonempty [of xs]
  by (auto simp: calculate_spectral_rolloff_def try_bind_def Let_def)

lemma mfcc_returns:
  assumes "2 \<le> length xs"
  shows "\<exists>v. calculate_mfcc_variance xs sr = Inr (Some v)"
proof -
  from half_spectrum_nonempty [OF assms] obtain transformed where
    tr: "fft xs = Inr transformed"
      "take (length (map cmod transformed) div 2) (map cmod transformed) \<noteq> []"
    by blast
  show ?thesis
    unfolding calculate_mfcc_variance_def tr(1) try_bind_def Let_def
    using tr(2) by (simp add: np_var_def np_mean_def)
qed

lemma dynamic_range_returns:
  "xs \<noteq> [] \<Longrightarrow> \<exists>v. calculate_dynamic_range xs = Inr (Some v)"
  using np_max_nonempty [of "map abs xs"]
  by (auto simp: calculate_dynamic_range_def try_bind_def Let_def split: option.splits)

lemma zero_crossing_rate_returns:
  "xs \<noteq> [] \<Longrightarrow> \<exists>v. calculate_zero_crossing_rate xs = Some v"
  by (simp add: calculate_zero_crossing_rate_def Let_def)

lemma np_std_mean_nonempty:
  assumes "ys \<noteq> []"
  shows "\<exists>sd m. np_std ys = Some sd \<and> np_mean ys = Some m"
  using assms by (simp add: np_std_def np_mean_def)

lemma harmonic_ratio_returns:
  assumes "xs \<noteq> []"
  shows "\<exists>v. calculate_harmonic_ratio xs = Inr (Some v)"
proof -
  from correlate_length [OF assms] obtain ac where
    ac: "np_correlate_full xs xs = Inr ac" "length ac = 2 * length xs - 1"
    by blast
  define autocorr where "autocorr = drop (length ac div 2) ac"
  have len: "length autocorr = length xs"
    using assms by (cases xs) (simp_all add: autocorr_def ac(2))
  define peaks where "peaks = find_peaks (drop 1 autocorr) 0"
  have inr: "\<not> list_ex (\<lambda>p. length autocorr \<le> p + 1) peaks"
  proof -
    have "p + 1 < length autocorr" if "p \<in> set peaks" for p
      using find_peaks_in_range [of p "drop 1 autocorr" 0] that
      by (simp add: peaks_def)
    then have "\<not> length autocorr \<le> p + 1" if "p \<in> set peaks" for p
      using that by (simp add: not_le)
    then show ?thesis unfolding list_ex_iff by blast
  qed
  have "autocorr \<noteq> []" using len assms by auto
  from np_max_nonempty [OF this] obtain m where m: "np_max autocorr = Inr m"
    by blast
  have eq: "calculate_harmonic_ratio xs =
     (if length autocorr < 2 then Inr (Some 0.5)
      else if length peaks > 0
           then (case np_mean (map (\<lambda>p. autocorr ! (p + 1)) peaks) of
                   None \<Rightarrow> Inr None
                 | Some mean_peak \<Rightarrow>
                     Inr (Some (min (mean_peak / (m + 1 / 10 ^ 10)) 1.0)))
           else Inr (Some 0.3))"
    unfolding calculate_harmonic_ratio_def ac(1) try_bind_def
    using inr [unfolded peaks_def] m
    by (simp add: Let_def autocorr_def [symmetric] peaks_def split: option.splits)
  consider "length autocorr < 2" | "\<not> length autocorr < 2" "peaks = []"
    | "\<not> length autocorr < 2" "peaks \<noteq> []"
    by blast
  then show ?thesis
  proof cases
    case 1
    then have "calculate_harmonic_ratio xs = Inr (Some 0.5)" unfolding eq by simp
    then show ?thesis by (rule exI)
  next
    case 2
    then have "calculate_harmonic_ratio xs = Inr (Some 0.3)" unfolding eq by simp
    then show ?thesis by (rule exI)
  next
    case 3
    then have "calculate_harmonic_ratio xs
        = Inr (Some (min (sum_list (map (\<lambda>p. autocorr ! (p + 1)) peaks) / real (length peaks)
                            / (m + 1 / 10 ^ 10)) 1.0))"
      unfolding eq by (simp add: np_mean_def)
    then show ?thesis by (rule exI)
  qed
qed

lemma np_diff_nonempty: "2 \<le> length ys \<Longrightarrow> np_diff ys \<noteq> []"
proof (cases ys)
  case Nil
  then show "2 \<le> length ys \<Longrightarrow> np_diff ys \<noteq> []" by simp
next
  case (Cons y rest)
  then show "2 \<le> length ys \<Longrightarrow> np_diff ys \<noteq> []" by (cases rest) simp_all
qed

lemma jitter_returns:
  assumes "xs \<noteq> []"
  shows "\<exists>v. calculate_jitter xs sr = Inr (Some v)"
proof -
  from correlate_length [OF assms] obtain ac where
    ac: "np_correlate_full xs xs = Inr ac" "length ac = 2 * length xs - 1"
    by blast
  define autocorr where "autocorr = drop (length ac div 2) ac"
  have len: "length autocorr = length xs"
    using assms by (cases xs) (simp_all add: autocorr_def ac(2))
  have "autocorr \<noteq> []" using len assms by auto
  from np_max_nonempty [OF this] obtain m where m: "np_max autocorr = Inr m"
    by blast
  define peaks where "peaks = find_peaks (drop 1 autocorr) (0.3 * m)"
  have *: "\<exists>sd mp. np_std (np_diff (map real peaks)) = Some sd
             \<and> np_mean (np_diff (map real peaks)) = Some mp" if "1 < length peaks"
  proof -
    have "np_diff (map real peaks) \<noteq> []"
      using that by (intro np_diff_nonempty) simp
    then show ?thesis by (rule np_std_mean_nonempty)
  qed
  have eq: "calculate_jitter xs sr =
     (if length peaks > 1
      then (case (np_std (np_diff (map real peaks)), np_mean (np_diff (map real peaks))) of
              (Some deviation, Some mean_period) \<Rightarrow>
                Inr (Some (min (deviation / (mean_period + 1 / 10 ^ 10)) 1.0))
            | _ \<Rightarrow> Inr None)
      else Inr (Some 0.01))"
    unfolding calculate_jitter_def ac(1) try_bind_def
    using m by (simp add: Let_def autocorr_def [symmetric] peaks_def split: option.splits)
  show ?thesis
  proof (cases "1 < length peaks")
    case True
    from * [OF True] obtain sd mp where
      "np_std (np_diff (map real peaks)) = Some sd" "np_mean (np_diff (map real peaks)) = Some mp"
      by blast
    with True have "calculate_jitter xs sr = Inr (Some (min (sd / (mp + 1 / 10 ^ 10)) 1.0))"
      unfolding eq by simp
    then show ?thesis by (rule exI)
  next
    case False
    then have "calculate_jitter xs sr = Inr (Some 0.01)" unfolding eq by simp
    then show ?thesis by (rule exI)
  qed
qed

lemma py_range_frame:
  assumes "i \<in> set (py_range 0 (int n - 1024) 512)"
  shows "nat i + 1024 < n"
proof -
  have "\<not> int (512 * n) < int n - 1024" by simp
  from py_range_hops [OF this, of 0]
  have "py_range 0 (int n - 1024) 512
          = map (\<lambda>k. int (512 * k)) (filter (\<lambda>k. int (512 * k) < int n - 1024) [0..<n])"
    by simp
  with assms obtain k where "i = int (512 * k)" "int (512 * k) < int n - 1024"
    by auto
  then show ?thesis by simp
qed

lemma frame_length:
  assumes "i \<in> set (py_range 0 (int (length xs) - 1024) 512)"
  shows "length (take 1024 (drop (nat i) xs)) = 1024"
  using py_range_frame [OF assms] by simp

lemma shimmer_returns: "\<exists>v. calculate_shimmer xs = Some v"
proof -
  define starts where "starts = py_range 0 (int (length xs) - int 1024) 512"
  define amp where
    "amp = (\<lambda>i. map_option sqrt (np_mean (map (\<lambda>x. x\<^sup>2) (take 1024 (drop (nat i) xs)))))"
  have "amp i \<noteq> None" if "i \<in> set starts" for i
  proof -
    have "length (take 1024 (drop (nat i) xs)) = 1024"
      using that unfolding starts_def by (intro frame_length) simp
    then have "take 1024 (drop (nat i) xs) \<noteq> []" by auto
    then show ?thesis by (simp add: amp_def np_mean_def)
  qed
  then have th: "those (map amp starts) = Some (map (\<lambda>i. the (amp i)) starts)"
    by (rule those_map_Some)
  have eq: "calculate_shimmer xs =
     (if length (map amp starts) > 1
      then (case those (map amp starts) of
              None \<Rightarrow> None
            | Some amps \<Rightarrow>
                (case (np_std amps, np_mean amps) of
                   (Some deviation, Some mean_amplitude) \<Rightarrow>
                     Some (min (deviation / (mean_amplitude + 1 / 10 ^ 10)) 1.0)
                 | _ \<Rightarrow> None))
      else Some 0.05)"
    unfolding calculate_shimmer_def Let_def amp_def starts_def
    by (simp split: option.splits)
  show ?thesis
  proof (cases "length (map amp starts) > 1")
    case True
    then have "map (\<lambda>i. the (amp i)) starts \<noteq> []" by auto
    from np_std_mean_nonempty [OF this] obtain sd m where
      "np_std (map (\<lambda>i. the (amp i)) starts) = Some sd"
      "np_mean (map (\<lambda>i. the (amp i)) starts) = Some m"
      by blast
    with True have "calculate_shimmer xs = Some (min (sd / (m + 1 / 10 ^ 10)) 1.0)"
      unfolding eq th by simp
    then show ?thesis by (rule exI)
  next
    case False
    then have "calculate_shimmer xs = Some 0.05" unfolding eq by simp
    then show ?thesis by (rule exI)
  qed
qed

lemma scipy_entropy_positive:
  assumes "pk \<noteq> []" "\<And>q. q \<in> set pk \<Longrightarrow> 0 < q"
  shows "\<exists>v. scipy_entropy pk = Some v"
proof -
  have "0 < sum_list pk"
    using assms by (induction pk) (auto intro: add_pos_nonneg sum_list_nonneg less_imp_le)
  moreover from this have "\<not> list_ex (\<lambda>q. q < 0) (map (\<lambda>x. x / sum_list pk) pk)"
    using assms(2) by (auto simp: list_ex_iff not_less intro!: divide_nonneg_nonneg less_imp_le)
  ultimately show ?thesis
    by (simp add: scipy_entropy_def Let_def)
qed

lemma energy_entropy_returns: "\<exists>v. calculate_energy_entropy xs = Some v"
proof -
  define energies where
    "energies = map (\<lambda>i. sum_list (map (\<lambda>x. x\<^sup>2) (take 1024 (drop (nat i) xs))))
                   (py_range 0 (int (length xs) - int 1024) 512)"
  define total where "total = sum_list energies + 1 / 10 ^ 10"
  have nonneg: "0 \<le> e" if "e \<in> set energies" for e
    using that by (auto simp: energies_def intro!: sum_list_nonneg)
  then have "0 \<le> sum_list energies" by (intro sum_list_nonneg)
  then have total: "0 < total" by (simp add: total_def add_nonneg_pos)
  have eq: "calculate_energy_entropy xs =
     (if energies \<noteq> []
      then scipy_entropy (map (\<lambda>e. e + 1 / 10 ^ 10) (map (\<lambda>e. e / total) energies))
      else Some 0.0)"
    unfolding calculate_energy_entropy_def Let_def energies_def total_def by simp
  show ?thesis
  proof (cases "energies = []")
    case True
    then show ?thesis unfolding eq by simp
  next
    case False
    have "0 < q" if "q \<in> set (map (\<lambda>e. e + 1 / 10 ^ 10) (map (\<lambda>e. e / total) energies))" for q
    proof -
      from that obtain e where e: "e \<in> set energies" "q = e / total + 1 / 10 ^ 10"
        by auto
      have "0 \<le> e / total" using nonneg [OF e(1)] total by simp
      then show ?thesis unfolding e(2) by (simp add: add_nonneg_pos)
    qed
    moreover have "map (\<lambda>e. e + 1 / 10 ^ 10) (map (\<lambda>e. e / total) energies) \<noteq> []"
      using False by simp
    ultimately have "\<exists>v. scipy_entropy
        (map (\<lambda>e. e + 1 / 10 ^ 10) (map (\<lambda>e. e / total) energies)) = Some v"
      by (intro scipy_entropy_positive)
    then show ?thesis unfolding eq using False by simp
  qed
qed

lemma extract_features_returns:
  assumes "2 \<le> length xs" "0 < sr"
  shows "\<exists>v1 v2 v3 v4 v5 v6 v7 v8 v9 v10 v11.
           extract_features xs sr language
             = Inr [(''spectral_flatness'', Some v1),
                    (''spectral_centroid'', Some v2),
                    (''spectral_rolloff'', Some v3),
                    (''harmonic_ratio'', Some v4),
                    (''zero_crossing_rate'', Some v5),
                    (''zcr_std'', Some v6),
                    (''jitter'', Some v7),
                    (''shimmer'', Some v8),
                    (''mfcc_variance'', Some v9),
                    (''energy_entropy'', Some v10),
                    (''dynamic_range'', Some v11),
                    (''signal_kurtosis'', kurtosis xs),
                    (''signal_skewness'', skew xs)]"
proof -
  have ne: "xs \<noteq> []" using assms(1) by auto
  from flatness_returns [OF assms(1)] obtain v1 where
    1: "calculate_spectral_flatness xs = Inr (Some v1)" by blast
  from centroid_returns [OF ne assms(2)] obtain v2 where
    2: "calculate_spectral_centroid xs sr = Inr (Some v2)" by blast
  from rolloff_returns [OF ne] obtain v3 where
    3: "calculate_spectral_rolloff xs sr = Inr (Some v3)" by blast
  from harmonic_ratio_returns [OF ne] obtain v4 where
    4: "calculate_harmonic_ratio xs = Inr (Some v4)" by blast
  from zero_crossing_rate_returns [OF ne] obtain v5 where
    5: "calculate_zero_crossing_rate xs = Some v5" by blast
  from calculate_zcr_std_total obtain v6 where
    6: "calculate_zcr_std xs = Some v6" by blast
  from jitter_returns [OF ne] obtain v7 where
    7: "calculate_jitter xs sr = Inr (Some v7)" by blast
  from shimmer_returns obtain v8 where
    8: "calculate_shimmer xs = Some v8" by blast
  from mfcc_returns [OF assms(1)] obtain v9 where
    9: "calculate_mfcc_variance xs sr = Inr (Some v9)" by blast
  from energy_entropy_returns obtain v10 where
    10: "calculate_energy_entropy xs = Some v10" by blast
  from dynamic_range_returns [OF ne] obtain v11 where
    11: "calculate_dynamic_range xs = Inr (Some v11)" by blast
  show ?thesis
    unfolding extract_features_def 1 2 3 4 5 6 7 8 9 10 11 try_bind_def Let_def
    by simp
qed

text \<open>
  The second central moment is zero exactly when all samples are equal, and exactly then
  the kurtosis and the skewness are \<open>nan\<close>.
\<close>

lemma central_moment_flat:
  assumes "0 < n" "0 < k"
  shows "central_moment k (replicate n c) = Some 0"
proof -
  have m: "np_mean (replicate n c) = Some c"
    using assms(1) by (simp add: np_mean_def sum_list_replicate)
  have "map (\<lambda>x. (x - c) ^ k) (replicate n c) = replicate n 0"
    using assms(2) by simp
  then show ?thesis
    using assms(1) by (simp add: central_moment_def m np_mean_def sum_list_replicate)
qed

lemma kurtosis_flat: "0 < n \<Longrightarrow> kurtosis (replicate n c) = None"
  by (simp add: kurtosis_def central_moment_flat)

lemma skew_flat: "0 < n \<Longrightarrow> skew (replicate n c) = None"
  by (simp add: skew_def central_moment_flat)

lemma second_moment_zero_iff:
  assumes "xs \<noteq> []"
  shows "central_moment 2 xs = Some 0 \<longleftrightarrow> (\<forall>x\<in>set xs. \<forall>y\<in>set xs. x = y)"
proof -
  define m where "m = sum_list xs / real (length xs)"
  have n: "0 < real (length xs)" using assms by simp
  have cm: "central_moment 2 xs = Some (sum_list (map (\<lambda>x. (x - m)\<^sup>2) xs) / real (length xs))"
    using assms by (simp add: central_moment_def np_mean_def m_def)
  have z: "sum_list (map (\<lambda>x. (x - m)\<^sup>2) xs) = 0 \<longleftrightarrow> (\<forall>x\<in>set xs. x = m)"
    by (subst sum_list_nonneg_eq_0_iff) auto
  show ?thesis
  proof
    assume "central_moment 2 xs = Some 0"
    then have "\<forall>x\<in>set xs. x = m" using cm n z by simp
    then show "\<forall>x\<in>set xs. \<forall>y\<in>set xs. x = y" by metis
  next
    assume eq: "\<forall>x\<in>set xs. \<forall>y\<in>set xs. x = y"
    from assms obtain c where c: "c \<in> set xs" by (cases xs) auto
    with eq have "xs = replicate (length xs) c"
      by (metis replicate_length_same)
    then have "central_moment 2 xs = central_moment 2 (replicate (length xs) c)" by simp
    also have "\<dots> = Some 0" using assms by (intro central_moment_flat) simp_all
    finally show "central_moment 2 xs = Some 0" .
  qed
qed

lemma kurtosis_nan_iff:
  assumes "xs \<noteq> []"
  shows "kurtosis xs = None \<longleftrightarrow> (\<forall>x\<in>set xs. \<forall>y\<in>set xs. x = y)"
    and "skew xs = None \<longleftrightarrow> (\<forall>x\<in>set xs. \<forall>y\<in>set xs. x = y)"
proof -
  obtain m2 m3 m4 where
    m: "central_moment 2 xs = Some m2" "central_moment 3 xs = Some m3"
       "central_moment 4 xs = Some m4"
    using assms by (simp add: central_moment_def np_mean_def)
  have "m2 = 0 \<longleftrightarrow> (\<forall>x\<in>set xs. \<forall>y\<in>set xs. x = y)"
    using second_moment_zero_iff [OF assms] m(1) by simp
  then show "kurtosis xs = None \<longleftrightarrow> (\<forall>x\<in>set xs. \<forall>y\<in>set xs. x = y)"
    and "skew xs = None \<longleftrightarrow> (\<forall>x\<in>set xs. \<forall>y\<in>set xs. x = y)"
    by (simp_all add: kurtosis_def skew_def m)
qed

lemma kurtosis_of_pair: "kurtosis [1, - 1] = Some (- 2) \<and> skew [1, - 1] = Some 0"
  by (simp add: kurtosis_def skew_def central_moment_def np_mean_def)

lemma extract_features_finite_iff:
  assumes "2 \<le> length xs" "0 < sr"
  shows "\<exists>d. extract_features xs sr language = Inr d
           \<and> map fst d = feature_keys
           \<and> (list_all (\<lambda>item. snd item \<noteq> None) d
                \<longleftrightarrow> \<not> (\<forall>x\<in>set xs. \<forall>y\<in>set xs. x = y))"
proof -
  have ne: "xs \<noteq> []" using assms(1) by auto
  from extract_features_returns [OF assms, of language] obtain d where
    d: "extract_features xs sr language = Inr d" "map fst d = feature_keys"
      "list_all (\<lambda>item. snd item \<noteq> None) d \<longleftrightarrow> kurtosis xs \<noteq> None \<and> skew xs \<noteq> None"
    by (auto simp: feature_keys_def)
  then show ?thesis
    using kurtosis_nan_iff [OF ne] by auto
qed

text \<open>
  C2 on a silent clip. On one second of digital silence, 16000 samples equal to zero at
  16000 Hz, the extractor raises nothing and returns its thirteen keys; eleven of the
  values are finite floats, and the values of \<open>signal_kurtosis\<close> and
  \<open>signal_skewness\<close> are \<open>nan\<close>, where the claim C2 has every value finite.
\<close>

theorem silent_clip_kurtosis_and_skewness_nan:
  "\<exists>v1 v2 v3 v4 v5 v6 v7 v8 v9 v10 v11.
     extract_features silent_clip 16000 language
       = Inr [(''spectral_flatness'', Some v1),
              (''spectral_centroid'', Some v2),
              (''spectral_rolloff'', Some v3),
              (''harmonic_ratio'', Some v4),
              (''zero_crossing_rate'', Some v5),
              (''zcr_std'', Some v6),
              (''jitter'', Some v7),
              (''shimmer'', Some v8),
              (''mfcc_variance'', Some v9),
              (''energy_entropy'', Some v10),
              (''dynamic_range'', Some v11),
              (''signal_kurtosis'', None),
              (''signal_skewness'', None)]"
proof -
  have len: "2 \<le> length silent_clip" by (simp add: silent_clip_def)
  have sr: "0 < (16000::nat)" by simp
  have k: "kurtosis silent_clip = None"
    unfolding silent_clip_def by (rule kurtosis_flat) simp
  have s: "skew silent_clip = None"
    unfolding silent_clip_def by (rule skew_flat) simp
  from extract_features_returns [OF len sr, of language] show ?thesis
    unfolding k s .
qed

end
